theory Spec2Isabelle
  imports Complex_Main "HOL-Library.Sublist" "HOL-Library.Log_Nat" "HOL-Library.Code_Target_Numeral"
begin

section \<open>Strings and numbers of the host language\<close>

text \<open>
  Strings are byte lists; a character outside ASCII is its UTF-8 encoding. Numbers
  that the probes compute from counts, sizes and clock readings are exact (\<open>nat\<close>,
  \<open>int\<close>, \<open>rat\<close>), and the contrast of two colours is a real number. The overall
  score of a report is computed in double precision, each operation rounding its exact
  result to the nearest double. A thrown exception is a value of type \<open>error\<close> and a
  fallible operation returns \<open>error + 'a\<close>.
\<close>

datatype error = Error string

definition bind :: "error + 'a \<Rightarrow> ('a \<Rightarrow> error + 'b) \<Rightarrow> error + 'b" where
  "bind m f = (case m of Inl e \<Rightarrow> Inl e | Inr v \<Rightarrow> f v)"

definition digit_chars :: string where
  "digit_chars = ''0123456789''"

fun dec :: "nat \<Rightarrow> string" where
  "dec n = (if n < 10 then [digit_chars ! n] else dec (n div 10) @ [digit_chars ! (n mod 10)])"

declare dec.simps [simp del]

definition dec_int :: "int \<Rightarrow> string" where
  "dec_int i = (if i < 0 then CHR ''-'' # dec (nat (- i)) else dec (nat i))"

text \<open>\<open>Math.round\<close>: the nearest integer, a tie going up.\<close>

definition Math_round :: "rat \<Rightarrow> int" where
  "Math_round q = \<lfloor>q + 1 / 2\<rfloor>"

text \<open>\<open>x.toFixed(d)\<close> for \<open>d > 0\<close>: \<open>x\<close> scaled by \<open>10^d\<close>, rounded (a tie going up in
  magnitude), and printed with exactly \<open>d\<close> decimals.\<close>

definition pad_left :: "nat \<Rightarrow> string \<Rightarrow> string" where
  "pad_left d s = replicate (d - length s) CHR ''0'' @ s"

definition toFixed :: "nat \<Rightarrow> 'a::floor_ceiling \<Rightarrow> string" where
  "toFixed d q =
     (let n = nat \<lfloor>\<bar>q\<bar> * 10 ^ d + 1 / 2\<rfloor>;
          s = dec (n div 10 ^ d) @ ''.'' @ pad_left d (dec (n mod 10 ^ d))
      in if q < 0 then CHR ''-'' # s else s)"

fun join :: "string \<Rightarrow> string list \<Rightarrow> string" where
  "join sep [] = []"
| "join sep [s] = s"
| "join sep (s # t # ss) = s @ sep @ join sep (t # ss)"

definition lower_map :: "(char \<times> char) list" where
  "lower_map = zip ''ABCDEFGHIJKLMNOPQRSTUVWXYZ'' ''abcdefghijklmnopqrstuvwxyz''"

definition toLowerCase :: "string \<Rightarrow> string" where
  "toLowerCase s = map (\<lambda>c. case map_of lower_map c of None \<Rightarrow> c | Some l \<Rightarrow> l) s"

text \<open>\<open>text.includes(kw)\<close>: the keyword occurs as a contiguous part of the text.\<close>

fun str_includes :: "string \<Rightarrow> string \<Rightarrow> bool" where
  "str_includes [] kw = (kw = [])"
| "str_includes (c # cs) kw = (prefix kw (c # cs) \<or> str_includes cs kw)"

text \<open>White space, as far as it is ASCII: space, tab, line feed, vertical tab, form feed
  and carriage return.\<close>

definition is_space :: "char \<Rightarrow> bool" where
  "is_space c = (c \<in> set [CHR '' '', CHR 0x09, CHR 0x0A, CHR 0x0B, CHR 0x0C, CHR 0x0D])"

definition trim :: "string \<Rightarrow> string" where
  "trim s = rev (dropWhile is_space (rev (dropWhile is_space s)))"

text \<open>\<open>className.split(' ')[0]\<close>: the part before the first space.\<close>

definition first_class :: "string \<Rightarrow> string" where
  "first_class cls = takeWhile (\<lambda>c. c \<noteq> CHR '' '') cls"

text \<open>\<open>name.replace(/\s+/g, '_')\<close>: every run of white space becomes one underscore.\<close>

function replace_spaces :: "string \<Rightarrow> string" where
  "replace_spaces [] = []"
| "replace_spaces (c # cs) =
     (if is_space c then CHR ''_'' # replace_spaces (dropWhile is_space cs)
      else c # replace_spaces cs)"
  by pat_completeness auto
termination
  by (relation "measure length") (auto simp: length_dropWhile_le less_Suc_eq_le)

definition is_digit :: "char \<Rightarrow> bool" where
  "is_digit c = (c \<in> set digit_chars)"

text \<open>\<open>s.match(/\d+/g)\<close>: the maximal runs of digits, from left to right. The first
  argument is the run being read.\<close>

fun digit_runs :: "string \<Rightarrow> string \<Rightarrow> string list" where
  "digit_runs cur [] = (if cur = [] then [] else [cur])"
| "digit_runs cur (c # cs) =
     (if is_digit c then digit_runs (cur @ [c]) cs
      else if cur = [] then digit_runs [] cs
      else cur # digit_runs [] cs)"

fun index_of :: "'a \<Rightarrow> 'a list \<Rightarrow> nat option" where
  "index_of v [] = None"
| "index_of v (a # as) =
     (if a = v then Some 0
      else (case index_of v as of None \<Rightarrow> None | Some k \<Rightarrow> Some (Suc k)))"

definition digit_value :: "char \<Rightarrow> nat" where
  "digit_value c = (case index_of c digit_chars of None \<Rightarrow> 0 | Some k \<Rightarrow> k)"

text \<open>\<open>parseInt\<close> on a run of digits.\<close>

definition parseInt :: "string \<Rightarrow> nat" where
  "parseInt ds = foldl (\<lambda>acc c. 10 * acc + digit_value c) 0 ds"

section \<open>Result model\<close>

datatype status = Pass | Fail | Warning

datatype severity = High | Medium | Low

record ElementIssue =
  selector :: string
  x :: int
  y :: int
  width :: int
  height :: int
  description :: string
  issue_severity :: severity
  recommendation :: string
  screenshotPath :: "string option"

text \<open>A test result. The \<open>timestamp\<close> field of the source reads the wall clock and is
  left out.\<close>

record TestResult =
  category :: string
  test :: string
  status :: status
  score :: rat
  details :: string
  severity :: severity
  elements :: "ElementIssue list option"
  recommendations :: "string list option"

record LargestContentfulPaintEntry =
  lcp_startTime :: rat
  lcp_renderTime :: rat
  lcp_loadTime :: rat
  lcp_size :: "rat option"
  lcp_url :: "string option"
  lcp_element :: "string option"

record PerformanceMetrics =
  loadTime :: int
  domContentLoaded :: rat
  firstPaint :: rat
  firstContentfulPaint :: rat
  largestContentfulPaint :: rat
  largestContentfulPaintEntry :: "LargestContentfulPaintEntry option"
  totalSize :: rat
  requestCount :: nat

datatype impact = Critical | Serious | Moderate | Minor

record AccessibilityIssue =
  a11y_type :: string
  a11y_severity :: impact
  a11y_element :: string
  a11y_description :: string
  wcagLevel :: string

record ResponsiveTestResult =
  device :: string
  rr_width :: nat
  rr_height :: nat
  rr_issues :: "string list"
  rr_screenshot :: "string option"

record ProblemArea =
  pa_category :: string
  pa_test :: string
  issues :: "ElementIssue list"

text \<open>The browser: whether it runs, the browsing contexts it holds open, and the number
  it gives to the next context.\<close>

record Browser =
  running :: bool
  contexts :: "nat list"
  next_context :: nat

datatype script_source = FromUrl string | FromPath string

record ScreenshotAnalyzer =
  screenshotsDir :: string
  problemAreas :: "ProblemArea list"

text \<open>The tester. Its browser is undefined until \<open>initialize\<close> has launched one. Of its
  page, the state holds the script tags that were requested, in order.\<close>

record UXUITester =
  browser :: "Browser option"
  scriptTagRequests :: "script_source list"
  results :: "TestResult list"
  performanceMetrics :: PerformanceMetrics
  accessibilityIssues :: "AccessibilityIssue list"
  responsiveResults :: "ResponsiveTestResult list"
  screenshotAnalyzer :: ScreenshotAnalyzer

definition config_url :: string where
  "config_url = ''https://jigsawaiteam.com/''"

definition config_screenshotsDir :: string where
  "config_screenshotsDir = ''outputs/ux-report/screenshots''"

definition new_ScreenshotAnalyzer :: "string \<Rightarrow> ScreenshotAnalyzer" where
  "new_ScreenshotAnalyzer dir = \<lparr>screenshotsDir = dir, problemAreas = []\<rparr>"

definition new_UXUITester :: UXUITester where
  "new_UXUITester =
     \<lparr>browser = None,
      scriptTagRequests = [],
      results = [],
      performanceMetrics =
        \<lparr>loadTime = 0, domContentLoaded = 0, firstPaint = 0, firstContentfulPaint = 0,
         largestContentfulPaint = 0, largestContentfulPaintEntry = None,
         totalSize = 0, requestCount = 0\<rparr>,
      accessibilityIssues = [],
      responsiveResults = [],
      screenshotAnalyzer = new_ScreenshotAnalyzer config_screenshotsDir\<rparr>"

definition addResult ::
  "string \<Rightarrow> string \<Rightarrow> status \<Rightarrow> rat \<Rightarrow> string \<Rightarrow> severity \<Rightarrow>
   ElementIssue list option \<Rightarrow> string list option \<Rightarrow> UXUITester \<Rightarrow> UXUITester" where
  "addResult c t st sc d sev els recs s =
     s\<lparr>results := results s @
         [\<lparr>category = c, test = t, status = st, score = sc, details = d, severity = sev,
           elements = els, recommendations = recs\<rparr>]\<rparr>"

section \<open>Performance probe\<close>

text \<open>
  What the page reports to the performance probe: the two clock readings taken at the
  start of the probe, the navigation, paint and resource timing entries, and the value
  the largest-contentful-paint observer resolves with (zero and no entry after its
  five second bound).
\<close>

record perf_page =
  clock_start :: int
  clock_now :: int
  navigationEntries :: "(rat \<times> rat) list"
  paintEntries :: "(string \<times> rat) list"
  resourceSizes :: "rat list"
  lcpResult :: "rat \<times> LargestContentfulPaintEntry option"

definition paint_start :: "string \<Rightarrow> (string \<times> rat) list \<Rightarrow> rat" where
  "paint_start nm es = (case find (\<lambda>e. fst e = nm) es of None \<Rightarrow> 0 | Some e \<Rightarrow> snd e)"

text \<open>The first evaluation in the page reads fields of the first navigation entry and
  throws when there is none.\<close>

definition eval_metrics :: "perf_page \<Rightarrow> error + (rat \<times> rat \<times> rat)" where
  "eval_metrics p =
     (case navigationEntries p of
        [] \<Rightarrow> Inl (Error ''TypeError: Cannot read properties of undefined'')
      | (e, b) # _ \<Rightarrow>
          Inr (e - b, paint_start ''first-paint'' (paintEntries p),
               paint_start ''first-contentful-paint'' (paintEntries p)))"

definition eval_resources :: "perf_page \<Rightarrow> nat \<times> rat" where
  "eval_resources p = (length (resourceSizes p), foldl (+) 0 (resourceSizes p))"

definition loadScore :: "int \<Rightarrow> rat" where
  "loadScore lt = (if lt < 3000 then 10 else if lt < 5000 then 7 else if lt < 8000 then 4 else 1)"

definition loadStatus :: "int \<Rightarrow> status" where
  "loadStatus lt = (if lt < 3000 then Pass else if lt < 5000 then Warning else Fail)"

definition lcpScore :: "rat \<Rightarrow> rat" where
  "lcpScore l = (if l < 2500 then 10 else if l < 4000 then 7 else 4)"

definition sizeScore :: "rat \<Rightarrow> rat" where
  "sizeScore sz = (if sz < 3000000 then 10 else if sz < 5000000 then 7 else 4)"

definition testPerformance :: "perf_page \<Rightarrow> UXUITester \<Rightarrow> error + UXUITester" where
  "testPerformance p s =
     (let lt = clock_now p - clock_start p in
      bind (eval_metrics p) (\<lambda>(dcl, fp, fcp).
        let (cnt, sz) = eval_resources p;
            lcp = fst (lcpResult p);
            lcpEntry = snd (lcpResult p);
            s1 = s\<lparr>performanceMetrics :=
                   \<lparr>loadTime = lt, domContentLoaded = dcl, firstPaint = fp,
                    firstContentfulPaint = fcp, largestContentfulPaint = lcp,
                    largestContentfulPaintEntry = lcpEntry, totalSize = sz,
                    requestCount = cnt\<rparr>\<rparr>;
            s2 = addResult ''Performance'' ''Page Load Time'' (loadStatus lt) (loadScore lt)
                   (''Page loaded in '' @ dec_int lt @ ''ms. Recommended: < 3000ms'')
                   (if lt > 5000 then High else Medium) None None s1;
            s3 = addResult ''Performance'' ''Largest Contentful Paint''
                   (if lcp < 2500 then Pass else if lcp < 4000 then Warning else Fail)
                   (lcpScore lcp)
                   (''LCP: '' @ dec_int (Math_round lcp) @ ''ms. Recommended: < 2500ms'')
                   (if lcp > 4000 then High else Medium) None None s2;
            s4 = addResult ''Performance'' ''Total Page Size''
                   (if sz < 3000000 then Pass else Warning) (sizeScore sz)
                   (''Total size: '' @ toFixed 2 (sz / 1024 / 1024) @ ''MB, '' @ dec cnt
                      @ '' requests'')
                   Low None None s3
        in Inr s4))"



section \<open>Evidence recorder\<close>

text \<open>
  What the page answers to the recorder: for a selector, the elements it matches in
  document order, each with its bounding box if it is rendered (or an exception, for a
  selector the page cannot evaluate); whether a screenshot of the first match can be
  written; the clock that names the file.
\<close>

record box =
  box_x :: rat
  box_y :: rat
  box_width :: rat
  box_height :: rat

record page =
  locate :: "string \<Rightarrow> error + box option list"
  element_screenshot :: "string \<Rightarrow> error + unit"
  now :: nat

definition path_join :: "string \<Rightarrow> string \<Rightarrow> string" where
  "path_join d f = d @ ''/'' @ f"

definition takeElementScreenshot ::
  "ScreenshotAnalyzer \<Rightarrow> page \<Rightarrow> string \<Rightarrow> string \<Rightarrow> string option" where
  "takeElementScreenshot a pg sel testName =
     (case locate pg sel of
        Inl e \<Rightarrow> None
      | Inr els \<Rightarrow>
          if length els = 0 then None
          else
            let filename = testName @ ''-element-'' @ dec (now pg) @ ''.png'';
                filepath = path_join (screenshotsDir a) filename
            in case element_screenshot pg sel of Inl e \<Rightarrow> None | Inr u \<Rightarrow> Some filepath)"

fun find_index :: "('a \<Rightarrow> bool) \<Rightarrow> 'a list \<Rightarrow> nat option" where
  "find_index P [] = None"
| "find_index P (a # as) =
     (if P a then Some 0 else (case find_index P as of None \<Rightarrow> None | Some k \<Rightarrow> Some (Suc k)))"

text \<open>\<open>storeProblemArea\<close> looks for the first area of the pair; the area found is
  updated in place, at its position in the collection.\<close>

definition storeProblemArea ::
  "string \<Rightarrow> string \<Rightarrow> ElementIssue \<Rightarrow> ScreenshotAnalyzer \<Rightarrow> ScreenshotAnalyzer" where
  "storeProblemArea c t i a =
     (let pas = problemAreas a in
      case find_index (\<lambda>pa. pa_category pa = c \<and> pa_test pa = t) pas of
        Some k \<Rightarrow> a\<lparr>problemAreas := pas[k := (pas ! k)\<lparr>issues := issues (pas ! k) @ [i]\<rparr>]\<rparr>
      | None \<Rightarrow> a\<lparr>problemAreas := pas @ [\<lparr>pa_category = c, pa_test = t, issues = [i]\<rparr>]\<rparr>)"

definition recordProblemArea ::
  "page \<Rightarrow> string \<Rightarrow> string \<Rightarrow> string \<Rightarrow> string \<Rightarrow> severity \<Rightarrow> string \<Rightarrow> bool \<Rightarrow>
   ScreenshotAnalyzer \<Rightarrow> ElementIssue option \<times> ScreenshotAnalyzer" where
  "recordProblemArea pg c t sel descr sev recm takeScreenshot a =
     (case locate pg sel of
        Inl e \<Rightarrow> (None, a)
      | Inr els \<Rightarrow>
          (case els of
             [] \<Rightarrow> (None, a)
           | None # _ \<Rightarrow> (None, a)
           | Some bb # _ \<Rightarrow>
               let shot = (if takeScreenshot
                           then takeElementScreenshot a pg sel (c @ ''-'' @ t) else None);
                   issue = \<lparr>selector = sel,
                            x = Math_round (box_x bb), y = Math_round (box_y bb),
                            width = Math_round (box_width bb),
                            height = Math_round (box_height bb),
                            description = descr, issue_severity = sev,
                            recommendation = recm, screenshotPath = shot\<rparr>
               in (Some issue, storeProblemArea c t issue a)))"

definition getProblemAreas :: "ScreenshotAnalyzer \<Rightarrow> ProblemArea list" where
  "getProblemAreas a = problemAreas a"

definition clearProblemAreas :: "ScreenshotAnalyzer \<Rightarrow> ScreenshotAnalyzer" where
  "clearProblemAreas a = a\<lparr>problemAreas := []\<rparr>"

text \<open>The invariant of the recorder's state: no area without an issue.\<close>

definition areas_nonempty :: "ScreenshotAnalyzer \<Rightarrow> bool" where
  "areas_nonempty a = list_all (\<lambda>pa. issues pa \<noteq> []) (problemAreas a)"

section \<open>Recommendations and report\<close>

definition red_circle :: string where
  "red_circle = [CHR 0xF0, CHR 0x9F, CHR 0x94, CHR 0xB4]"

definition bullet :: string where
  "bullet = [CHR 0xE2, CHR 0x80, CHR 0xA2]"

definition high_voltage :: string where
  "high_voltage = [CHR 0xE2, CHR 0x9A, CHR 0xA1]"

definition em_dash :: string where
  "em_dash = [CHR 0xE2, CHR 0x80, CHR 0x94]"

definition wheelchair :: string where
  "wheelchair = [CHR 0xE2, CHR 0x99, CHR 0xBF]"

definition mobile_phone :: string where
  "mobile_phone = [CHR 0xF0, CHR 0x9F, CHR 0x93, CHR 0xB1]"

definition yellow_circle :: string where
  "yellow_circle = [CHR 0xF0, CHR 0x9F, CHR 0x9F, CHR 0xA1]"

definition bar_chart :: string where
  "bar_chart = [CHR 0xF0, CHR 0x9F, CHR 0x93, CHR 0x8A]"

definition magnifier :: string where
  "magnifier = [CHR 0xF0, CHR 0x9F, CHR 0x94, CHR 0x8D]"

definition check_mark :: string where
  "check_mark = [CHR 0xE2, CHR 0x9C, CHR 0x85]"

definition push :: "'a list \<Rightarrow> 'a \<Rightarrow> 'a list" where
  "push xs v = xs @ [v]"

definition highPriorityIssues :: "UXUITester \<Rightarrow> TestResult list" where
  "highPriorityIssues s = filter (\<lambda>r. severity r = High \<and> status r = Fail) (results s)"

definition mediumPriorityIssues :: "UXUITester \<Rightarrow> TestResult list" where
  "mediumPriorityIssues s = filter (\<lambda>r. severity r = Medium \<and> status r = Fail) (results s)"

definition issue_line :: "TestResult \<Rightarrow> string" where
  "issue_line r = ''   '' @ bullet @ '' '' @ category r @ '' - '' @ test r @ '': '' @ details r"

definition lcp_entry_url :: "UXUITester \<Rightarrow> string option" where
  "lcp_entry_url s =
     (case largestContentfulPaintEntry (performanceMetrics s) of
        None \<Rightarrow> None
      | Some e \<Rightarrow> (case lcp_url e of None \<Rightarrow> None | Some u \<Rightarrow> if u = [] then None else Some u))"

definition responsiveIssues :: "UXUITester \<Rightarrow> ResponsiveTestResult list" where
  "responsiveIssues s = filter (\<lambda>r. length (rr_issues r) > 0) (responsiveResults s)"

definition criticalA11yIssues :: "UXUITester \<Rightarrow> AccessibilityIssue list" where
  "criticalA11yIssues s =
     filter (\<lambda>i. a11y_severity i = Critical \<or> a11y_severity i = Serious) (accessibilityIssues s)"

text \<open>The texts of the recommendations.\<close>

definition rec_high_priority :: "nat \<Rightarrow> string" where
  "rec_high_priority n =
     red_circle @ '' HIGH PRIORITY: Found '' @ dec n
       @ '' critical issues that need immediate attention''"

definition rec_load_time :: string where
  "rec_load_time = high_voltage @
     '' Optimize page load time by compressing images, minifying CSS/JS, and enabling caching''"

definition rec_lcp :: string where
  "rec_lcp = high_voltage @
     '' Improve Largest Contentful Paint (LCP) by optimizing above-the-fold content''"

definition rec_lcp_resource :: "string \<Rightarrow> string" where
  "rec_lcp_resource lcpUrl =
     high_voltage @ '' Consider optimizing LCP resource: '' @ lcpUrl @ '' '' @ em_dash
       @ '' compress/convert (AVIF/WebP), resize to display size, or preload if it is the hero image''"

definition rec_alt_text :: string where
  "rec_alt_text = wheelchair @
     '' Add descriptive alt text to all images for better accessibility''"

definition rec_responsive :: "string list \<Rightarrow> string" where
  "rec_responsive devices =
     mobile_phone @ '' Fix responsive design issues on '' @ join '', '' devices"

definition rec_a11y :: "nat \<Rightarrow> string" where
  "rec_a11y n = wheelchair @ '' Address '' @ dec n
     @ '' critical accessibility issues for WCAG compliance''"

definition rec_medium_priority :: "nat \<Rightarrow> string" where
  "rec_medium_priority n = yellow_circle @ '' MEDIUM PRIORITY: '' @ dec n
     @ '' issues that should be addressed soon''"

definition rec_analytics :: string where
  "rec_analytics = bar_chart @
     '' Consider implementing user analytics to track real user behavior''"

definition rec_user_testing :: string where
  "rec_user_testing = magnifier @
     '' Conduct user testing with real users to validate these findings''"

definition rec_action_plan :: string where
  "rec_action_plan = check_mark @
     '' Create a prioritized action plan based on severity and business impact''"

definition generateRecommendations :: "UXUITester \<Rightarrow> string list" where
  "generateRecommendations s =
     (let recs = [];
          high = highPriorityIssues s;
          medium = mediumPriorityIssues s;
          recs = (if length high > 0
                  then foldl (\<lambda>acc issue. push acc (issue_line issue))
                         (push recs (rec_high_priority (length high))) (take 3 high)
                  else recs);
          recs = (if loadTime (performanceMetrics s) > 3000
                  then push recs rec_load_time else recs);
          recs = (if largestContentfulPaint (performanceMetrics s) > 2500
                  then push recs rec_lcp else recs);
          recs = (case lcp_entry_url s of
                    Some lcpUrl \<Rightarrow> push recs (rec_lcp_resource lcpUrl)
                  | None \<Rightarrow> recs);
          recs = (case find (\<lambda>r. test r = ''Image Alt Text'' \<and> status r = Fail) (results s) of
                    Some missingAltImages \<Rightarrow> push recs rec_alt_text
                  | None \<Rightarrow> recs);
          recs = (if length (responsiveIssues s) > 0
                  then push recs (rec_responsive (map device (responsiveIssues s)))
                  else recs);
          recs = (if length (criticalA11yIssues s) > 0
                  then push recs (rec_a11y (length (criticalA11yIssues s)))
                  else recs);
          recs = (if length medium > 5
                  then push recs (rec_medium_priority (length medium))
                  else recs);
          recs = push recs rec_analytics;
          recs = push recs rec_user_testing;
          recs = push recs rec_action_plan
      in recs)"

subsection \<open>Double-precision numbers\<close>

text \<open>
  A number of the host language where the overall score is computed: a finite
  double-precision value, given by the rational it denotes, or one of the three values
  that denote no rational. The two zeros are one value, \<open>Num 0\<close>, which divides as the
  positive zero does; the only division by zero of the program is that of zero by the
  positive zero.
\<close>

datatype number = Num rat | NaN | PosInfinity | NegInfinity

text \<open>The exponent \<open>e\<close> of a positive rational: \<open>2 powi e \<le> z < 2 powi (e + 1)\<close>.\<close>

definition binade :: "rat \<Rightarrow> int" where
  "binade z =
     (let (a, b) = quotient_of z;
          d = int (floorlog 2 (nat a)) - int (floorlog 2 (nat b))
      in if 2 powi d \<le> z then d else d - 1)"

text \<open>The nearest integer, a tie going to the even one.\<close>

definition round_half_even :: "rat \<Rightarrow> int" where
  "round_half_even w =
     (let n = \<lfloor>w\<rfloor>; r = w - of_int n
      in if r < 1 / 2 then n else if 1 / 2 < r then n + 1 else if even n then n else n + 1)"

text \<open>
  The double nearest to a rational, a tie going to the even significand: doubles are
  spaced \<open>2 powi (e - 52)\<close> apart in the binade of exponent \<open>e\<close>, and
  \<open>2 powi (- 1074)\<close> apart below \<open>2 powi (- 1022)\<close>; a result of \<open>2 powi 1024\<close> or more
  is infinite.
\<close>

definition to_double :: "rat \<Rightarrow> number" where
  "to_double z =
     (if z = 0 then Num 0
      else
        let ulp = 2 powi (max (binade \<bar>z\<bar>) (- 1022) - 52);
            r = of_int (round_half_even (\<bar>z\<bar> / ulp)) * ulp
        in if 2 powi 1024 \<le> r then (if 0 < z then PosInfinity else NegInfinity)
           else Num (if 0 < z then r else - r))"

text \<open>The arithmetic of the host language: the exact result, rounded to a double.\<close>

definition negative :: "number \<Rightarrow> bool" where
  "negative v = (case v of Num q \<Rightarrow> q < 0 | NegInfinity \<Rightarrow> True | other \<Rightarrow> False)"

fun add_number :: "number \<Rightarrow> number \<Rightarrow> number" where
  "add_number (Num z) (Num w) = to_double (z + w)"
| "add_number NaN b = NaN"
| "add_number a NaN = NaN"
| "add_number PosInfinity NegInfinity = NaN"
| "add_number NegInfinity PosInfinity = NaN"
| "add_number (Num z) b = b"
| "add_number a b = a"

fun times_number :: "number \<Rightarrow> number \<Rightarrow> number" where
  "times_number (Num z) (Num w) = to_double (z * w)"
| "times_number NaN b = NaN"
| "times_number a NaN = NaN"
| "times_number a b =
     (if a = Num 0 \<or> b = Num 0 then NaN
      else if negative a = negative b then PosInfinity else NegInfinity)"

fun divide_number :: "number \<Rightarrow> number \<Rightarrow> number" where
  "divide_number (Num z) (Num w) =
     (if w \<noteq> 0 then to_double (z / w)
      else if z = 0 then NaN else if 0 < z then PosInfinity else NegInfinity)"
| "divide_number NaN b = NaN"
| "divide_number a NaN = NaN"
| "divide_number (Num z) b = Num 0"
| "divide_number a (Num w) = (if negative a = (w < 0) then PosInfinity else NegInfinity)"
| "divide_number a b = NaN"

text \<open>\<open>Math.round\<close> of a number: the integer nearest to a double is a double.\<close>

definition round_number :: "number \<Rightarrow> number" where
  "round_number v = (case v of Num q \<Rightarrow> Num (of_int (Math_round q)) | other \<Rightarrow> other)"

subsection \<open>Report\<close>

record UXReport =
  url :: string
  overallScore :: number
  report_results :: "TestResult list"
  performance :: PerformanceMetrics
  accessibility :: "AccessibilityIssue list"
  responsive :: "ResponsiveTestResult list"
  report_recommendations :: "string list"

text \<open>
  The report, without its \<open>testDate\<close>, which reads the wall clock. The score of a
  result is a double; the sum starts at 0 and adds the scores from the first result on,
  and the length of the list is a whole number.
\<close>

definition generateReport :: "UXUITester \<Rightarrow> UXReport" where
  "generateReport s =
     (let totalScore = foldl (\<lambda>sum r. add_number sum (Num (score r))) (Num 0) (results s);
          maxScore = times_number (Num (of_nat (length (results s)))) (Num 10);
          overall = round_number
            (times_number (divide_number totalScore maxScore) (Num 100));
          recs = generateRecommendations s
      in \<lparr>url = config_url, overallScore = overall, report_results = results s,
          performance = performanceMetrics s, accessibility = accessibilityIssues s,
          responsive = responsiveResults s, report_recommendations = recs\<rparr>)"

text \<open>
  A multiple of a half between 0 and 10. The probes give such scores: whole numbers,
  and, for the colour contrast, ten less a half for each issue.
\<close>

definition half_point :: "rat \<Rightarrow> bool" where
  "half_point z = (0 \<le> z \<and> z \<le> 10 \<and> of_int \<lfloor>2 * z\<rfloor> = 2 * z)"

section \<open>Probes of the document\<close>

text \<open>
  The document as the probes see it: the number of elements of a tag, the images, the
  elements the contrast probe samples, the candidates of the call-to-action probe with
  their rectangles, and the height of the viewport. The lists are in document order.
\<close>

record img =
  img_id :: string
  img_className :: string
  img_alt :: string

record text_el =
  el_tagName :: string
  el_id :: string
  el_className :: string
  el_textContent :: string
  el_color :: string
  el_backgroundColor :: string

record button_el =
  btn_id :: string
  btn_className :: string
  btn_textContent :: string
  btn_top :: rat
  btn_width :: rat
  btn_height :: rat
  btn_ariaLabel :: "string option"

record document =
  tagCount :: "string \<Rightarrow> nat"
  imgs :: "img list"
  textElements :: "text_el list"
  buttons :: "button_el list"
  innerHeight :: rat

definition selector_of :: "string \<Rightarrow> string \<Rightarrow> string \<Rightarrow> nat \<Rightarrow> string" where
  "selector_of ident cls tag i =
     (if ident \<noteq> [] then ''#'' @ ident
      else if cls \<noteq> [] then ''.'' @ first_class cls
      else tag @ '':nth-of-type('' @ dec i @ '')'')"

definition indexed :: "'a list \<Rightarrow> ('a \<times> nat) list" where
  "indexed xs = zip xs [0..<length xs]"

text \<open>A call of the recorder from a probe; the recorder throws nothing, and the issue it
  returns is not used.\<close>

definition record_area ::
  "page \<Rightarrow> string \<Rightarrow> string \<Rightarrow> string \<Rightarrow> severity \<Rightarrow> string \<Rightarrow> UXUITester \<Rightarrow> string
   \<Rightarrow> UXUITester" where
  "record_area pg c t descr sev recm s sel =
     s\<lparr>screenshotAnalyzer :=
         snd (recordProblemArea pg c t sel descr sev recm True (screenshotAnalyzer s))\<rparr>"

subsection \<open>Visual hierarchy\<close>

definition heading_tags :: "string list" where
  "heading_tags = [''h1'', ''h2'', ''h3'', ''h4'', ''h5'', ''h6'']"

definition withoutAlt :: "document \<Rightarrow> img list" where
  "withoutAlt doc = filter (\<lambda>i. img_alt i = [] \<or> trim (img_alt i) = []) (imgs doc)"

definition missingAltSelectors :: "document \<Rightarrow> string list" where
  "missingAltSelectors doc =
     map (\<lambda>(i, k). selector_of (img_id i) (img_className i) ''img'' k)
       (indexed (take 3 (withoutAlt doc)))"

definition altScore :: "nat \<Rightarrow> rat" where
  "altScore n = (if n = 0 then 10 else max 0 (10 - of_nat n * 2))"

definition testVisualHierarchy :: "page \<Rightarrow> document \<Rightarrow> UXUITester \<Rightarrow> UXUITester" where
  "testVisualHierarchy pg doc s =
     (let h1Count = tagCount doc ''h1'';
          s1 = addResult ''Visual Design'' ''H1 Heading''
                 (if h1Count = 1 then Pass else Fail) (if h1Count = 1 then 10 else 0)
                 (''Found '' @ dec h1Count @ '' H1 tag(s). Recommended: exactly 1'')
                 (if h1Count = 0 then High else Medium) None None s;
          headings = map (\<lambda>tag. (tag, tagCount doc tag)) heading_tags;
          hasProperHierarchy = (snd (headings ! 0) > 0 \<and> snd (headings ! 1) > 0);
          s2 = addResult ''Visual Design'' ''Heading Hierarchy''
                 (if hasProperHierarchy then Pass else Warning)
                 (if hasProperHierarchy then 10 else 6)
                 (''Heading structure: ''
                    @ join '', '' (map (\<lambda>(tag, n). tag @ '':'' @ dec n) headings))
                 Medium None None s1;
          missing = length (withoutAlt doc);
          total = length (imgs doc);
          s3 = foldl (record_area pg ''Visual Design'' ''Image Alt Text''
                        ''Image missing alt text - impacts accessibility'' High
                        ''Add descriptive alt text to all images for better accessibility'')
                 s2 (missingAltSelectors doc)
      in addResult ''Visual Design'' ''Image Alt Text''
           (if missing = 0 then Pass else Fail) (altScore missing)
           (dec missing @ '' out of '' @ dec total @ '' images missing alt text'')
           (if missing > 0 then High else Low) None None s3)"

subsection \<open>Call-to-action buttons\<close>

definition ctaKeywords :: "string list" where
  "ctaKeywords = [''subscribe'', ''contact'', ''get started'', ''learn more'', ''download'',
     ''buy'', ''register'', ''sign up'', ''join'', ''submit'']"

definition ctas :: "document \<Rightarrow> button_el list" where
  "ctas doc =
     filter (\<lambda>b. list_ex (\<lambda>kw. str_includes (toLowerCase (btn_textContent b)) kw) ctaKeywords)
       (buttons doc)"

definition smallCTAs :: "document \<Rightarrow> button_el list" where
  "smallCTAs doc = filter (\<lambda>b. btn_width b < 80 \<or> btn_height b < 40) (ctas doc)"

definition smallCTASelectors :: "document \<Rightarrow> string list" where
  "smallCTASelectors doc =
     map (\<lambda>(b, k). selector_of (btn_id b) (btn_className b) ''button'' k)
       (indexed (take 1 (smallCTAs doc)))"

definition notVisible :: "document \<Rightarrow> button_el list" where
  "notVisible doc = filter (\<lambda>b. btn_top b < 0 \<or> btn_top b > innerHeight doc) (ctas doc)"

definition withAriaLabel :: "document \<Rightarrow> button_el list" where
  "withAriaLabel doc =
     filter (\<lambda>b. case btn_ariaLabel b of None \<Rightarrow> False | Some l \<Rightarrow> l \<noteq> []) (ctas doc)"

definition cta_recommendations :: "document \<Rightarrow> string list" where
  "cta_recommendations doc =
     (let recs = [];
          recs = (if length (smallCTAs doc) > 0
                  then push (push recs
                    ''Increase CTA button size to at least 80x40px for better touch targets'')
                    ''Ensure buttons are easily clickable on mobile devices (minimum 44x44px recommended)''
                  else recs);
          recs = (if length (notVisible doc) > 0
                  then push (push recs
                    ''Move CTA buttons above the fold to improve visibility'')
                    ''Ensure primary CTAs are visible without scrolling on initial page load''
                  else recs);
          recs = (if length (withAriaLabel doc) < length (ctas doc)
                  then push recs
                    ''Add proper aria-label attributes to all CTA buttons for accessibility''
                  else recs)
      in recs)"

definition cta_details :: "nat \<Rightarrow> nat \<Rightarrow> nat \<Rightarrow> string" where
  "cta_details totalCTAs small hidden =
     ''Found '' @ dec totalCTAs @ '' CTA buttons, '' @ dec small @ '' are too small, ''
       @ dec hidden @ '' not visible above fold''"

definition testCTAButtons :: "page \<Rightarrow> document \<Rightarrow> UXUITester \<Rightarrow> UXUITester" where
  "testCTAButtons pg doc s =
     (let totalCTAs = length (ctas doc);
          small = length (smallCTAs doc);
          hidden = length (notVisible doc);
          s1 = foldl (record_area pg ''Interactive Elements'' ''CTA Buttons Size''
                        ''CTA button is too small (< 80x40px)'' High
                        ''Increase button size to at least 80x40px for better usability'')
                 s (smallCTASelectors doc);
          visibility = (if totalCTAs > hidden then Pass else Warning);
          recs = cta_recommendations doc
      in addResult ''Interactive Elements'' ''Call-to-Action Buttons'' visibility
           (if totalCTAs > 0 then (if hidden = 0 then 10 else 7) else 5)
           (cta_details totalCTAs small hidden)
           (if small > 2 then High else Medium) None
           (if length recs > 0 then Some recs else None) s1)"

subsection \<open>Colour contrast\<close>

text \<open>
  The contrast is computed over the reals; \<open>Math.pow\<close> of a positive base is \<open>powr\<close>. A
  value of type \<open>real option\<close> is a number of the page's script, \<open>None\<close> standing for
  \<open>NaN\<close>: \<open>parseInt\<close> of a missing match is \<open>NaN\<close>, and every operation on \<open>NaN\<close>
  gives \<open>NaN\<close>.
\<close>

definition match_at :: "string list \<Rightarrow> nat \<Rightarrow> nat option" where
  "match_at m i = (if i < length m then Some (parseInt (m ! i)) else None)"

definition parseRgb :: "string \<Rightarrow> nat option \<times> nat option \<times> nat option" where
  "parseRgb rgb =
     (let m = digit_runs [] rgb
      in if m = [] then (Some 0, Some 0, Some 0)
         else (match_at m 0, match_at m 1, match_at m 2))"

definition linearize :: "nat \<Rightarrow> real" where
  "linearize v =
     (let x = real v / 255
      in if x \<le> 0.03928 then x / 12.92 else ((x + 0.055) / 1.055) powr 2.4)"

definition getLuminance :: "nat option \<Rightarrow> nat option \<Rightarrow> nat option \<Rightarrow> real option" where
  "getLuminance r g b =
     (case (r, g, b) of
        (Some r', Some g', Some b') \<Rightarrow>
          Some (0.2126 * linearize r' + 0.7152 * linearize g' + 0.0722 * linearize b')
      | _ \<Rightarrow> None)"

definition getContrast :: "string \<Rightarrow> string \<Rightarrow> real option" where
  "getContrast rgb1 rgb2 =
     (let (r1, g1, b1) = parseRgb rgb1;
          (r2, g2, b2) = parseRgb rgb2;
          l1 = getLuminance r1 g1 b1;
          l2 = getLuminance r2 g2 b2
      in case (l1, l2) of
           (Some a, Some b) \<Rightarrow>
             (let lighter = max a b; darker = min a b
              in Some ((lighter + 0.05) / (darker + 0.05)))
         | _ \<Rightarrow> None)"

record contrast_issue =
  ci_tag :: string
  ci_selector :: string
  ci_contrast :: string
  ci_text :: string

text \<open>The body of the loop over the sampled elements: the issue pushed for the element at
  an index, if one is pushed.\<close>

definition contrast_issue_of :: "text_el \<Rightarrow> nat \<Rightarrow> contrast_issue option" where
  "contrast_issue_of el index =
     (let color = el_color el;
          bgColor = el_backgroundColor el;
          text = trim (el_textContent el)
      in if length text > 0 \<and> color \<noteq> [] \<and> bgColor \<noteq> [] \<and> bgColor \<noteq> ''rgba(0, 0, 0, 0)''
         then (case getContrast color bgColor of
                 None \<Rightarrow> None
               | Some contrast \<Rightarrow>
                   if contrast < 4.5
                   then Some \<lparr>ci_tag = el_tagName el,
                              ci_selector = selector_of (el_id el) (el_className el)
                                 (toLowerCase (el_tagName el)) index,
                              ci_contrast = toFixed 2 contrast,
                              ci_text = take 50 text\<rparr>
                   else None)
         else None)"

definition contrastIssues :: "document \<Rightarrow> contrast_issue list" where
  "contrastIssues doc =
     List.map_filter (\<lambda>(el, index). contrast_issue_of el index)
       (indexed (take 100 (textElements doc)))"

definition contrast_recommendations :: "string list" where
  "contrast_recommendations =
     [''Increase contrast ratio between text and background colors'',
      ''Use tools like WebAIM Color Contrast Checker to validate WCAG AA compliance (4.5:1)'',
      ''Consider using darker text on light backgrounds or lighter text on dark backgrounds'']"

definition testColorContrast :: "page \<Rightarrow> document \<Rightarrow> UXUITester \<Rightarrow> UXUITester" where
  "testColorContrast pg doc s =
     (let found = contrastIssues doc;
          n = length found;
          recs = (if n > 0 then contrast_recommendations else []);
          s1 = (if n > 0
                then foldl (\<lambda>st issue.
                       record_area pg ''Visual Design'' ''Color Contrast''
                         (''Text has low contrast ratio ('' @ ci_contrast issue
                            @ '':1, requires 4.5:1)'')
                         High ''Increase contrast ratio to meet WCAG AA standards (4.5:1)''
                         st (ci_selector issue))
                     s (take 2 found)
                else s);
          sc = (if n = 0 then 10 else max 0 (10 - of_nat n * (1 / 2)))
      in addResult ''Visual Design'' ''Color Contrast (WCAG AA)''
           (if n = 0 then Pass else Warning) sc
           (if n = 0 then ''All text has sufficient contrast''
            else dec n @ '' text elements have low contrast (< 4.5:1)'')
           (if n > 5 then High else Medium) None (Some recs) s1)"

text \<open>
  The contrast ratio in the words of the specification, on colours given by their three
  channels: each channel divided by 255 and linearised, the luminance a weighted sum,
  the ratio of the lighter to the darker luminance, each offset by 0.05.
\<close>

definition wcag_linear :: "real \<Rightarrow> real" where
  "wcag_linear c = (if c \<le> 0.03928 then c / 12.92 else ((c + 0.055) / 1.055) powr 2.4)"

definition wcag_luminance :: "nat \<times> nat \<times> nat \<Rightarrow> real" where
  "wcag_luminance rgb =
     (case rgb of (r, g, b) \<Rightarrow>
        0.2126 * wcag_linear (real r / 255) + 0.7152 * wcag_linear (real g / 255)
          + 0.0722 * wcag_linear (real b / 255))"

definition wcag_ratio :: "nat \<times> nat \<times> nat \<Rightarrow> nat \<times> nat \<times> nat \<Rightarrow> real" where
  "wcag_ratio fg bg =
     (max (wcag_luminance fg) (wcag_luminance bg) + 0.05)
       / (min (wcag_luminance fg) (wcag_luminance bg) + 0.05)"

text \<open>The computed style of an opaque colour, as the browser prints it.\<close>

definition rgb_string :: "nat \<Rightarrow> nat \<Rightarrow> nat \<Rightarrow> string" where
  "rgb_string r g b = ''rgb('' @ dec r @ '', '' @ dec g @ '', '' @ dec b @ '')''"

section \<open>Responsive probe\<close>

record device_config =
  dev_name :: string
  dev_width :: nat
  dev_height :: nat

definition config_devices :: "device_config list" where
  "config_devices =
     [\<lparr>dev_name = ''Desktop 1920x1080'', dev_width = 1920, dev_height = 1080\<rparr>,
      \<lparr>dev_name = ''Desktop 1366x768'', dev_width = 1366, dev_height = 768\<rparr>,
      \<lparr>dev_name = ''Tablet iPad'', dev_width = 768, dev_height = 1024\<rparr>,
      \<lparr>dev_name = ''Mobile iPhone 12'', dev_width = 390, dev_height = 844\<rparr>,
      \<lparr>dev_name = ''Mobile Samsung S21'', dev_width = 360, dev_height = 800\<rparr>]"

text \<open>
  What the browser answers while one device is tested: whether the context and its page
  open and the page loads, the three measurements taken in the page, the screenshot, and
  the closing of the page and of the context. Each either succeeds or throws.
\<close>

record device_run =
  newContext :: "error + unit"
  newPage :: "error + unit"
  goto :: "error + unit"
  hasHorizontalScroll :: "error + bool"
  textTooSmall :: "error + nat"
  smallTargets :: "error + nat"
  screenshot :: "error + unit"
  closePage :: "error + unit"
  closeContext :: "error + unit"
  clock :: nat

text \<open>A computation that may throw keeps the state it had reached: it returns the
  exception, if any, and the state.\<close>

type_synonym step = "UXUITester \<Rightarrow> error option \<times> UXUITester"

definition or_throw ::
  "error + 'a \<Rightarrow> UXUITester \<Rightarrow> ('a \<Rightarrow> error option \<times> UXUITester)
   \<Rightarrow> error option \<times> UXUITester" where
  "or_throw r s k = (case r of Inl e \<Rightarrow> (Some e, s) | Inr v \<Rightarrow> k v)"

text \<open>\<open>this.browser.newContext\<close>: throws when the tester has no browser or the browser
  is closed; otherwise the browser holds one more open context.\<close>

definition browser_newContext :: "error + unit \<Rightarrow> UXUITester \<Rightarrow> (error + nat) \<times> UXUITester" where
  "browser_newContext answer s =
     (case browser s of
        None \<Rightarrow> (Inl (Error ''TypeError: Cannot read properties of undefined''), s)
      | Some b \<Rightarrow>
          if \<not> running b then (Inl (Error ''Target page, context or browser has been closed''), s)
          else (case answer of
                  Inl e \<Rightarrow> (Inl e, s)
                | Inr u \<Rightarrow>
                    (Inr (next_context b),
                     s\<lparr>browser := Some (b\<lparr>contexts := contexts b @ [next_context b],
                                           next_context := Suc (next_context b)\<rparr>)\<rparr>)))"

definition context_close :: "nat \<Rightarrow> UXUITester \<Rightarrow> UXUITester" where
  "context_close ctx s =
     (case browser s of
        None \<Rightarrow> s
      | Some b \<Rightarrow> s\<lparr>browser := Some (b\<lparr>contexts := removeAll ctx (contexts b)\<rparr>)\<rparr>)"

definition isMobile :: "device_config \<Rightarrow> bool" where
  "isMobile d =
     (list_ex (\<lambda>w. str_includes (toLowerCase (dev_name d)) w)
        [''mobile'', ''iphone'', ''android'', ''s21'']
      \<or> dev_width d \<le> 420)"

definition device_findings :: "device_config \<Rightarrow> string list \<Rightarrow> UXUITester \<Rightarrow> UXUITester" where
  "device_findings d found s =
     addResult ''Responsive Design'' (dev_name d)
       (if length found = 0 then Pass else Warning)
       (if length found = 0 then 10 else if length found = 1 then 7 else 5)
       (if length found = 0 then ''No issues detected'' else join '', '' found)
       (if length found > 1 then Medium else Low) None None s"

text \<open>The body of the \<open>try\<close> for one device.\<close>

definition device_try :: "device_run \<Rightarrow> device_config \<Rightarrow> step" where
  "device_try env d s =
     (let mobile = isMobile d;
          (opened, s1) = browser_newContext (newContext env) s
      in or_throw opened s1 (\<lambda>ctx.
         or_throw (newPage env) s1 (\<lambda>p.
         or_throw (goto env) s1 (\<lambda>u.
         or_throw (hasHorizontalScroll env) s1 (\<lambda>scroll.
         let found = (if scroll then [''Horizontal scrollbar detected''] else []) in
         or_throw (textTooSmall env) s1 (\<lambda>tooSmall.
         let found = (if tooSmall > 5
                      then push found (dec tooSmall @ '' text elements smaller than 14px'')
                      else found) in
         or_throw (if mobile then smallTargets env else Inr 0) s1 (\<lambda>targets.
         let found = (if mobile \<and> targets > 0
                      then push found (dec targets @ '' touch targets smaller than 44x44'')
                      else found);
             screenshotPath = path_join config_screenshotsDir
                (replace_spaces (dev_name d) @ ''-'' @ dec (clock env) @ ''.png'') in
         or_throw (screenshot env) s1 (\<lambda>u.
         let s2 = s1\<lparr>responsiveResults := responsiveResults s1 @
                       [\<lparr>device = dev_name d, rr_width = dev_width d,
                         rr_height = dev_height d, rr_issues = found,
                         rr_screenshot = Some screenshotPath\<rparr>]\<rparr>;
             s3 = device_findings d found s2 in
         or_throw (closePage env) s3 (\<lambda>u.
         or_throw (closeContext env) s3 (\<lambda>u.
         (None, context_close ctx s3)))))))))))"

text \<open>One turn of the loop: the \<open>try\<close>, and the \<open>catch\<close> that turns an exception into a
  warning.\<close>

definition testResponsive_device :: "device_run \<Rightarrow> device_config \<Rightarrow> UXUITester \<Rightarrow> UXUITester" where
  "testResponsive_device env d s =
     (case device_try env d s of
        (None, s') \<Rightarrow> s'
      | (Some err, s') \<Rightarrow>
          addResult ''Responsive Design'' (dev_name d) Warning 5
            ''Could not fully test responsive design for this device'' Low None None s')"

definition testResponsive :: "(string \<Rightarrow> device_run) \<Rightarrow> UXUITester \<Rightarrow> UXUITester" where
  "testResponsive envs s =
     foldl (\<lambda>st d. testResponsive_device (envs (dev_name d)) d st) s config_devices"

section \<open>Accessibility probe\<close>

record violation =
  v_id :: string
  v_impact :: impact
  v_description :: string
  v_tags :: "string list"
  v_nodes :: "string list list"
  v_help :: string

text \<open>
  What the page answers to the accessibility probe: for the script at the remote
  address and for the script of the local package, whether the tag can be added and
  whether the audit engine is defined afterwards; whether the local package resolves to
  a path; the violations the engine reports; the descriptors of the focused element
  after each of the thirty presses of the tab key; whether there is a skip link and a
  language attribute; and the number of landmarks of each role.
\<close>

record a11y_run =
  cdn_addScriptTag :: "error + unit"
  cdn_axe_defined :: "error + bool"
  local_resolve :: "error + string"
  local_addScriptTag :: "error + unit"
  local_axe_defined :: "error + bool"
  axe_run :: "error + violation list"
  tab_focus :: "error + string list"
  skipLink :: "error + bool"
  langAttribute :: "error + bool"
  landmarkCounts :: "error + (string \<times> nat) list"

definition axe_cdn_url :: string where
  "axe_cdn_url = ''https://cdnjs.cloudflare.com/ajax/libs/axe-core/4.7.2/axe.min.js''"

definition addScriptTag :: "script_source \<Rightarrow> UXUITester \<Rightarrow> UXUITester" where
  "addScriptTag src s = s\<lparr>scriptTagRequests := scriptTagRequests s @ [src]\<rparr>"

text \<open>The first \<open>try\<close>: the script at the remote address. An exception is ignored and
  leaves the engine not loaded.\<close>

definition load_from_cdn :: "a11y_run \<Rightarrow> UXUITester \<Rightarrow> bool \<times> UXUITester" where
  "load_from_cdn env s =
     (let s1 = addScriptTag (FromUrl axe_cdn_url) s
      in case cdn_addScriptTag env of
           Inl cdnErr \<Rightarrow> (False, s1)
         | Inr u \<Rightarrow> (case cdn_axe_defined env of Inl cdnErr \<Rightarrow> (False, s1)
                                               | Inr loaded \<Rightarrow> (loaded, s1)))"

text \<open>The second \<open>try\<close>, entered only when the engine is not loaded: the script of the
  local package.\<close>

definition load_from_package :: "a11y_run \<Rightarrow> UXUITester \<Rightarrow> bool \<times> UXUITester" where
  "load_from_package env s =
     (case local_resolve env of
        Inl localErr \<Rightarrow> (False, s)
      | Inr axePath \<Rightarrow>
          (let s1 = addScriptTag (FromPath axePath) s
           in case local_addScriptTag env of
                Inl localErr \<Rightarrow> (False, s1)
              | Inr u \<Rightarrow> (case local_axe_defined env of Inl localErr \<Rightarrow> (False, s1)
                                                      | Inr loaded \<Rightarrow> (loaded, s1))))"

definition load_axe :: "a11y_run \<Rightarrow> UXUITester \<Rightarrow> bool \<times> UXUITester" where
  "load_axe env s =
     (let (axeLoaded, s1) = load_from_cdn env s
      in if \<not> axeLoaded then load_from_package env s1 else (axeLoaded, s1))"

definition ruleRecommendations :: "(string \<times> string) list" where
  "ruleRecommendations =
     [(''button-name'',
       ''Ensure buttons with only icons have accessible names (aria-label or visually hidden text)''),
      (''aria-input-field-name'',
       ''Provide accessible names for form inputs (label element or aria-label)''),
      (''color-contrast'',
       ''Increase color contrast to meet WCAG AA (4.5:1 for normal text)''),
      (''scrollable-region-focusable'',
       ''Ensure scrollable regions are keyboard focusable and have a visible focus indicator'')]"

text \<open>The target of the first node, joined; \<open>None\<close> when the violation has no node.\<close>

definition first_target :: "violation \<Rightarrow> string option" where
  "first_target v = (case v_nodes v of [] \<Rightarrow> None | t # ts \<Rightarrow> Some (join '', '' t))"

definition process_violation :: "UXUITester \<Rightarrow> violation \<Rightarrow> UXUITester" where
  "process_violation s v =
     (let s1 = s\<lparr>accessibilityIssues := accessibilityIssues s @
                   [\<lparr>a11y_type = v_id v, a11y_severity = v_impact v,
                     a11y_element = (case first_target v of
                                       None \<Rightarrow> ''Unknown''
                                     | Some t \<Rightarrow> if t = [] then ''Unknown'' else t),
                     a11y_description = v_description v,
                     wcagLevel = join '', '' (filter (prefix ''wcag'') (v_tags v))\<rparr>]\<rparr>
      in case map_of ruleRecommendations (v_id v) of
           None \<Rightarrow> s1
         | Some advice \<Rightarrow>
             addResult ''Accessibility'' (v_id v) Fail 0
               (v_help v @ '': '' @ (case first_target v of None \<Rightarrow> ''undefined'' | Some t \<Rightarrow> t))
               High None (Some [advice]) s1)"

definition keyboard_check :: "a11y_run \<Rightarrow> UXUITester \<Rightarrow> UXUITester" where
  "keyboard_check env s =
     (case tab_focus env of
        Inl e \<Rightarrow>
          addResult ''Accessibility'' ''Keyboard Navigation'' Warning 5
            ''Could not simulate keyboard navigation'' Low None None s
      | Inr descs \<Rightarrow>
          (let size = length (remdups (map (\<lambda>d. if d = [] then ''none'' else d) descs))
           in addResult ''Accessibility'' ''Keyboard Navigation''
                (if size > 1 then Pass else Fail) (if size > 1 then 10 else 0)
                (dec size @ '' distinct focus targets reached via Tab'')
                (if size > 1 then Low else High) None None s))"

definition skip_link_check :: "a11y_run \<Rightarrow> UXUITester \<Rightarrow> UXUITester" where
  "skip_link_check env s =
     (case skipLink env of
        Inl e \<Rightarrow>
          addResult ''Accessibility'' ''Skip Link'' Warning 5 ''Could not test for skip link''
            Low None None s
      | Inr hasSkipLink \<Rightarrow>
          addResult ''Accessibility'' ''Skip Link''
            (if hasSkipLink then Pass else Warning) (if hasSkipLink then 10 else 7)
            (if hasSkipLink then ''Skip link present''
             else ''Consider adding a \"skip to content\" link for keyboard users'')
            (if hasSkipLink then Low else Medium) None None s)"

definition language_check :: "a11y_run \<Rightarrow> UXUITester \<Rightarrow> UXUITester" where
  "language_check env s =
     (case langAttribute env of
        Inl e \<Rightarrow>
          addResult ''Accessibility'' ''Language Attribute'' Warning 5
            ''Could not test language attribute'' Low None None s
      | Inr hasLang \<Rightarrow>
          addResult ''Accessibility'' ''Language Attribute''
            (if hasLang then Pass else Fail) (if hasLang then 10 else 0)
            (if hasLang then ''Language attribute present''
             else ''Missing lang attribute on <html>'')
            High None None s)"

definition landmark_check :: "a11y_run \<Rightarrow> UXUITester \<Rightarrow> UXUITester" where
  "landmark_check env s =
     (case landmarkCounts env of
        Inl e \<Rightarrow>
          addResult ''Accessibility'' ''ARIA Landmarks'' Warning 5
            ''Could not test ARIA landmarks'' Low None None s
      | Inr landmarks \<Rightarrow>
          (let hasMainLandmark =
                 (find (\<lambda>l. fst l = ''main'' \<and> snd l > 0) landmarks \<noteq> None)
           in addResult ''Accessibility'' ''ARIA Landmarks''
                (if hasMainLandmark then Pass else Warning)
                (if hasMainLandmark then 10 else 7)
                (''Landmarks found: ''
                   @ join '', '' (map fst (filter (\<lambda>l. snd l > 0) landmarks)))
                Medium None None s))"

definition overall_a11y :: "UXUITester \<Rightarrow> UXUITester" where
  "overall_a11y s =
     (let criticalCount = length (criticalA11yIssues s)
      in addResult ''Accessibility'' ''Overall A11y Issues''
           (if criticalCount = 0 then Pass else if criticalCount \<le> 2 then Warning else Fail)
           (if criticalCount = 0 then 10 else if criticalCount \<le> 2 then 7
            else if criticalCount \<le> 5 then 4 else 1)
           (dec (length (accessibilityIssues s)) @ '' total issues ('' @ dec criticalCount
              @ '' critical/serious)'')
           (if criticalCount > 2 then High else Medium) None None s)"

definition axe_unavailable :: "UXUITester \<Rightarrow> UXUITester" where
  "axe_unavailable s =
     addResult ''Accessibility'' ''axe-core'' Warning 5
       ''axe-core could not be loaded; accessibility automated checks were limited''
       Low None None s"

text \<open>The probe. Only the run of the engine can throw into the outer \<open>catch\<close>; every
  other step has a \<open>catch\<close> of its own.\<close>

definition testAccessibility :: "a11y_run \<Rightarrow> UXUITester \<Rightarrow> UXUITester" where
  "testAccessibility env s =
     (let (axeLoaded, s1) = load_axe env s;
          audited = (if axeLoaded
                     then (case axe_run env of
                             Inl e \<Rightarrow> Inl s1
                           | Inr violations \<Rightarrow> Inr (foldl process_violation s1 violations))
                     else Inr (axe_unavailable s1))
      in case audited of
           Inl s2 \<Rightarrow>
             addResult ''Accessibility'' ''Overall A11y Issues'' Warning 5
               ''Accessibility testing could not be fully completed'' Low None None s2
         | Inr s2 \<Rightarrow>
             overall_a11y (landmark_check env (language_check env
               (skip_link_check env (keyboard_check env s2)))))"

section \<open>Session orchestrator\<close>

text \<open>
  What a run meets: whether the browser launches, its first context and page open, and
  the page loads; the pages and documents the probes above read; and, for the six
  probes whose scoring no property below depends on, their whole behaviour on the
  tester: the new state, or the exception they throw.
\<close>

record run_env =
  launch :: "error + unit"
  main_context :: "error + unit"
  main_page :: "error + unit"
  navigate :: "error + unit"
  perf :: perf_page
  live_page :: page
  live_document :: document
  responsive_runs :: "string \<Rightarrow> device_run"
  a11y :: a11y_run
  testNavigation :: "UXUITester \<Rightarrow> error + UXUITester"
  testReadability :: "UXUITester \<Rightarrow> error + UXUITester"
  testForms :: "UXUITester \<Rightarrow> error + UXUITester"
  testInteractiveElements :: "UXUITester \<Rightarrow> error + UXUITester"
  testKeyboardNavigation :: "UXUITester \<Rightarrow> error + UXUITester"
  testSEOBasics :: "UXUITester \<Rightarrow> error + UXUITester"

definition throwing :: "(UXUITester \<Rightarrow> error + UXUITester) \<Rightarrow> step" where
  "throwing f s = (case f s of Inl e \<Rightarrow> (Some e, s) | Inr s' \<Rightarrow> (None, s'))"

definition total :: "(UXUITester \<Rightarrow> UXUITester) \<Rightarrow> step" where
  "total f s = (None, f s)"

text \<open>\<open>initialize\<close> launches the browser, then opens the context of the tester's page
  and the page. The browser is the tester's as soon as it is launched.\<close>

definition initialize :: "run_env \<Rightarrow> step" where
  "initialize env s =
     or_throw (launch env) s (\<lambda>u.
       let s1 = s\<lparr>browser := Some \<lparr>running = True, contexts = [], next_context = 0\<rparr>\<rparr>;
           (opened, s2) = browser_newContext (main_context env) s1
       in or_throw opened s2 (\<lambda>ctx.
          or_throw (main_page env) s2 (\<lambda>p. (None, s2))))"

definition goto_url :: "run_env \<Rightarrow> step" where
  "goto_url env s = (case navigate env of Inl e \<Rightarrow> (Some e, s) | Inr u \<Rightarrow> (None, s))"

text \<open>\<open>cleanup\<close> closes the browser, and with it every context; it throws when the
  tester has no browser.\<close>

definition cleanup :: step where
  "cleanup s =
     (case browser s of
        None \<Rightarrow> (Some (Error ''TypeError: Cannot read properties of undefined''), s)
      | Some b \<Rightarrow> (None, s\<lparr>browser := Some (b\<lparr>running := False, contexts := []\<rparr>)\<rparr>))"

text \<open>The probes, in the order in which \<open>runAllTests\<close> awaits them.\<close>

definition probes :: "run_env \<Rightarrow> step list" where
  "probes env =
     [throwing (testPerformance (perf env)),
      total (testVisualHierarchy (live_page env) (live_document env)),
      total (testColorContrast (live_page env) (live_document env)),
      throwing (testNavigation env),
      throwing (testReadability env),
      total (testCTAButtons (live_page env) (live_document env)),
      throwing (testForms env),
      throwing (testInteractiveElements env),
      throwing (testKeyboardNavigation env),
      throwing (testSEOBasics env),
      total (testResponsive (responsive_runs env)),
      total (testAccessibility (a11y env))]"

text \<open>A sequence of awaited steps: the first exception ends it.\<close>

fun run_steps :: "step list \<Rightarrow> step" where
  "run_steps [] s = (None, s)"
| "run_steps (f # fs) s =
     (case f s of (Some e, s') \<Rightarrow> (Some e, s') | (None, s') \<Rightarrow> run_steps fs s')"

text \<open>\<open>runAllTests\<close>: the \<open>try\<close> runs the steps and generates the report; the \<open>catch\<close>
  throws the exception again; the \<open>finally\<close> runs \<open>cleanup\<close>, whose own exception
  replaces the outcome.\<close>

definition runAllTests :: "run_env \<Rightarrow> UXUITester \<Rightarrow> (error + UXReport) \<times> UXUITester" where
  "runAllTests env s =
     (let (thrown, s1) = run_steps (initialize env # goto_url env # probes env) s;
          outcome = (case thrown of None \<Rightarrow> Inr (generateReport s1) | Some e \<Rightarrow> Inl e)
      in case cleanup s1 of
           (Some e, s2) \<Rightarrow> (Inl e, s2)
         | (None, s2) \<Rightarrow> (outcome, s2))"

section \<open>Fixtures\<close>

text \<open>Concrete pages and tester states at which the theorems below are instantiated.\<close>

definition perf_page_3000 :: perf_page where
  "perf_page_3000 = \<lparr>clock_start = 1000, clock_now = 4000, navigationEntries = [(12, 10)],
     paintEntries = [], resourceSizes = [2048], lcpResult = (0, None)\<rparr>"

definition two_findings :: UXUITester where
  "two_findings =
     addResult ''Navigation'' ''Logo/Home Link'' Warning 7 ''No clear home link found'' Medium
       None None
       (addResult ''Visual Design'' ''H1 Heading'' Pass 10
          ''Found 1 H1 tag(s). Recommended: exactly 1'' Medium None None new_UXUITester)"

definition four_findings :: UXUITester where
  "four_findings =
     addResult ''Accessibility'' ''Overall A11y Issues'' Fail 1
       ''9 total issues (6 critical/serious)'' High None None
       (addResult ''Responsive Design'' ''Tablet iPad'' Warning 5
          ''Could not fully test responsive design for this device'' Low None None
          two_findings)"

definition hidden_banner_page :: page where
  "hidden_banner_page =
     \<lparr>locate = (\<lambda>sel. if sel = ''#banner'' then Inr [None] else Inr []),
      element_screenshot = (\<lambda>sel. Inr ()),
      now = 1700000000000\<rparr>"

definition logo_page :: page where
  "logo_page =
     \<lparr>locate = (\<lambda>sel. if sel = ''#logo''
                       then Inr [Some \<lparr>box_x = 8, box_y = 21 / 2, box_width = 120,
                                       box_height = 40\<rparr>]
                       else Inr []),
      element_screenshot = (\<lambda>sel. Inr ()),
      now = 1700000000000\<rparr>"

definition alt_issue :: ElementIssue where
  "alt_issue =
     \<lparr>selector = ''#hero'', x = 0, y = 0, width = 640, height = 480,
      description = ''Image missing alt text - impacts accessibility'',
      issue_severity = High,
      recommendation = ''Add descriptive alt text to all images for better accessibility'',
      screenshotPath = None\<rparr>"

definition one_area :: ScreenshotAnalyzer where
  "one_area =
     storeProblemArea ''Visual Design'' ''Image Alt Text'' alt_issue
       (new_ScreenshotAnalyzer config_screenshotsDir)"

definition critical_a11y_only :: UXUITester where
  "critical_a11y_only =
     new_UXUITester\<lparr>accessibilityIssues :=
       [\<lparr>a11y_type = ''image-alt'', a11y_severity = Critical, a11y_element = ''img'',
         a11y_description = ''Ensures <img> elements have alternate text'',
         wcagLevel = ''wcag2a, wcag111''\<rparr>]\<rparr>"

definition logo_call :: "ElementIssue option \<times> ScreenshotAnalyzer" where
  "logo_call = recordProblemArea logo_page ''Navigation'' ''Logo/Home Link'' ''#logo''
     ''Logo is too small'' Low ''Enlarge the logo'' False
     (new_ScreenshotAnalyzer config_screenshotsDir)"

definition hidden_call :: "ElementIssue option \<times> ScreenshotAnalyzer" where
  "hidden_call = recordProblemArea hidden_banner_page ''Visual Design'' ''Image Alt Text''
     ''#banner'' ''Image missing alt text - impacts accessibility'' High
     ''Add descriptive alt text to all images for better accessibility'' True one_area"

text \<open>The page of the end-to-end scenario: one \<open>h1\<close>, two images of which the second has
  no alt text, a \<open>nav\<close> with three links, and a Get Started button of 60 by 30 pixels.\<close>

definition fixture_document :: document where
  "fixture_document =
     \<lparr>tagCount = (\<lambda>tag. if tag = ''h1'' then 1 else if tag = ''img'' then 2
                        else if tag = ''nav'' then 1 else if tag = ''a'' then 3
                        else if tag = ''button'' then 1 else 0),
      imgs = [\<lparr>img_id = ''hero'', img_className = [], img_alt = ''Our product''\<rparr>,
              \<lparr>img_id = [], img_className = ''thumb small'', img_alt = []\<rparr>],
      textElements = [],
      buttons = [\<lparr>btn_id = [], btn_className = [], btn_textContent = ''Get Started'',
                  btn_top = 300, btn_width = 60, btn_height = 30, btn_ariaLabel = None\<rparr>],
      innerHeight = 1080\<rparr>"

definition fixture_page :: page where
  "fixture_page =
     \<lparr>locate = (\<lambda>sel. if sel = ''.thumb''
                       then Inr [Some \<lparr>box_x = 10, box_y = 200, box_width = 64,
                                       box_height = 64\<rparr>]
                       else Inr []),
      element_screenshot = (\<lambda>sel. Inr ()),
      now = 1700000000000\<rparr>"


definition black_on_white :: text_el where
  "black_on_white =
     \<lparr>el_tagName = ''P'', el_id = ''intro'', el_className = [],
      el_textContent = ''Welcome'', el_color = ''rgb(0, 0, 0)'',
      el_backgroundColor = ''rgb(255, 255, 255)''\<rparr>"

definition gray_on_gray :: text_el where
  "gray_on_gray =
     \<lparr>el_tagName = ''H1'', el_id = ''title'', el_className = [],
      el_textContent = '' Hello '', el_color = ''rgb(128, 128, 128)'',
      el_backgroundColor = ''rgb(128, 128, 128)''\<rparr>"

text \<open>A tester after \<open>initialize\<close>: the browser runs and holds the context of the main
  page.\<close>

definition launched :: UXUITester where
  "launched =
     new_UXUITester\<lparr>browser := Some \<lparr>running = True, contexts = [0], next_context = 1\<rparr>\<rparr>"

text \<open>A device on which everything succeeds and nothing is found, and one whose page
  cannot be loaded.\<close>

definition device_ok :: device_run where
  "device_ok =
     \<lparr>newContext = Inr (), newPage = Inr (), goto = Inr (),
      hasHorizontalScroll = Inr False, textTooSmall = Inr 0, smallTargets = Inr 0,
      screenshot = Inr (), closePage = Inr (), closeContext = Inr (),
      clock = 1700000000000\<rparr>"

definition device_unreachable :: device_run where
  "device_unreachable = device_ok\<lparr>goto := Inl (Error ''net::ERR_CONNECTION_RESET'')\<rparr>"

definition tablet_unreachable :: "string \<Rightarrow> device_run" where
  "tablet_unreachable nm = (if nm = ''Tablet iPad'' then device_unreachable else device_ok)"

text \<open>Pages for the accessibility probe: one on which the remote script and the local
  package both load, and one on which neither does.\<close>

definition axe_everywhere :: a11y_run where
  "axe_everywhere =
     \<lparr>cdn_addScriptTag = Inr (), cdn_axe_defined = Inr True,
      local_resolve = Inr ''node_modules/axe-core/axe.min.js'',
      local_addScriptTag = Inr (), local_axe_defined = Inr True,
      axe_run = Inr [], tab_focus = Inr [''A#home'', ''BUTTON.cta''],
      skipLink = Inr True, langAttribute = Inr True,
      landmarkCounts = Inr [(''banner'', 1), (''navigation'', 1), (''main'', 1),
                            (''contentinfo'', 1), (''complementary'', 0)]\<rparr>"

definition axe_nowhere :: a11y_run where
  "axe_nowhere =
     axe_everywhere
       \<lparr>cdn_addScriptTag := Inl (Error ''net::ERR_INTERNET_DISCONNECTED''),
        local_addScriptTag := Inl (Error ''ENOENT: no such file or directory'')\<rparr>"

text \<open>A run in which everything succeeds, and one in which the page has no navigation
  timing entry, so that the performance probe throws.\<close>

definition quiet_run :: run_env where
  "quiet_run =
     \<lparr>launch = Inr (), main_context = Inr (), main_page = Inr (), navigate = Inr (),
      perf = perf_page_3000,
      live_page = fixture_page, live_document = fixture_document,
      responsive_runs = (\<lambda>nm. device_ok), a11y = axe_everywhere,
      testNavigation = Inr, testReadability = Inr, testForms = Inr,
      testInteractiveElements = Inr, testKeyboardNavigation = Inr, testSEOBasics = Inr\<rparr>"

definition no_timing_run :: run_env where
  "no_timing_run = quiet_run\<lparr>perf := perf_page_3000\<lparr>navigationEntries := []\<rparr>\<rparr>"

section \<open>Properties\<close>

subsection \<open>Basic facts\<close>

lemma bind_Inr [simp]: "bind (Inr v) f = f v"
  by (simp add: bind_def)

lemma bind_Inl [simp]: "bind (Inl e) f = Inl e"
  by (simp add: bind_def)

lemma bind_eq_Inr: "bind m f = Inr r \<longleftrightarrow> (\<exists>v. m = Inr v \<and> f v = Inr r)"
  by (cases m) simp_all

lemma results_addResult [simp]:
  "results (addResult c t st sc d sev els recs s) =
     results s @ [\<lparr>category = c, test = t, status = st, score = sc, details = d,
                   severity = sev, elements = els, recommendations = recs\<rparr>]"
  by (simp add: addResult_def)

subsection \<open>Thresholds of the page load time\<close>

lemma testPerformance_results:
  assumes "testPerformance p s = Inr s'"
  shows "\<exists>r2 r3. results s' = results s @
           [\<lparr>category = ''Performance'', test = ''Page Load Time'',
             status = loadStatus (clock_now p - clock_start p),
             score = loadScore (clock_now p - clock_start p),
             details = ''Page loaded in '' @ dec_int (clock_now p - clock_start p)
                         @ ''ms. Recommended: < 3000ms'',
             severity = (if clock_now p - clock_start p > 5000 then High else Medium),
             elements = None, recommendations = None\<rparr>, r2, r3]"
proof -
  from assms obtain dcl fp fcp where m: "eval_metrics p = Inr (dcl, fp, fcp)"
    by (cases "eval_metrics p") (auto simp: testPerformance_def Let_def)
  obtain cnt sz where r: "eval_resources p = (cnt, sz)"
    by (cases "eval_resources p")
  from assms have "s' = projr (testPerformance p s)" by simp
  then show ?thesis
    by (simp add: testPerformance_def Let_def m r)
qed

text \<open>
  Claim C3. Whenever the performance probe returns, the result it appends first is the
  Page Load Time result, classified by the measured load time alone: below 3000 ms it
  passes with score 10; from 3000 ms up to, not including, 5000 ms it is a warning with
  score 7; from 5000 ms up to, not including, 8000 ms it fails with score 4; from
  8000 ms on it fails with score 1. A load time of exactly 3000 ms is therefore a
  warning.
\<close>

theorem page_load_time_thresholds:
  assumes "testPerformance p s = Inr s'"
  shows "\<exists>r. r = results s' ! length (results s) \<and>
           test r = ''Page Load Time'' \<and>
           (clock_now p - clock_start p < 3000 \<longrightarrow> status r = Pass \<and> score r = 10) \<and>
           (3000 \<le> clock_now p - clock_start p \<and> clock_now p - clock_start p < 5000
              \<longrightarrow> status r = Warning \<and> score r = 7) \<and>
           (5000 \<le> clock_now p - clock_start p \<and> clock_now p - clock_start p < 8000
              \<longrightarrow> status r = Fail \<and> score r = 4) \<and>
           (8000 \<le> clock_now p - clock_start p \<longrightarrow> status r = Fail \<and> score r = 1)"
proof -
  from testPerformance_results [OF assms] obtain r2 r3 where
    "results s' = results s @
           [\<lparr>category = ''Performance'', test = ''Page Load Time'',
             status = loadStatus (clock_now p - clock_start p),
             score = loadScore (clock_now p - clock_start p),
             details = ''Page loaded in '' @ dec_int (clock_now p - clock_start p)
                         @ ''ms. Recommended: < 3000ms'',
             severity = (if clock_now p - clock_start p > 5000 then High else Medium),
             elements = None, recommendations = None\<rparr>, r2, r3]" by blast
  then show ?thesis
    by (simp add: nth_append loadStatus_def loadScore_def)
qed


text \<open>At a load time of exactly 3000 ms the probe returns and the result is a warning
  with score 7.\<close>

theorem page_load_time_thresholds_witness:
  "\<not> isl (testPerformance perf_page_3000 new_UXUITester) \<and>
   test (results (projr (testPerformance perf_page_3000 new_UXUITester)) ! 0)
     = ''Page Load Time'' \<and>
   status (results (projr (testPerformance perf_page_3000 new_UXUITester)) ! 0) = Warning \<and>
   score (results (projr (testPerformance perf_page_3000 new_UXUITester)) ! 0) = 7"
proof -
  have "\<exists>s'. testPerformance perf_page_3000 new_UXUITester = Inr s'"
    by (simp add: testPerformance_def perf_page_3000_def eval_metrics_def eval_resources_def
          Let_def)
  then obtain s' where s': "testPerformance perf_page_3000 new_UXUITester = Inr s'" ..
  have c: "clock_now perf_page_3000 - clock_start perf_page_3000 = 3000"
    by (simp add: perf_page_3000_def)
  have n: "results new_UXUITester = []"
    by (simp add: new_UXUITester_def)
  from page_load_time_thresholds [OF s'] show ?thesis
    by (simp add: s' c n)
qed

subsection \<open>Rounding to a double\<close>

text \<open>The exponent of a positive rational, the rounding to the nearest integer, and the
  double nearest to a rational: its bounds, the values it leaves exact, and its error.\<close>

lemma floorlog2_int_bounds:
  assumes "0 < (a::int)"
  shows "(2::rat) ^ (floorlog 2 (nat a) - 1) \<le> of_int a \<and> of_int a < (2::rat) ^ floorlog 2 (nat a)
         \<and> 1 \<le> floorlog 2 (nat a)"
proof -
  from assms have n: "0 < nat a" by simp
  from floorlog_bounds [OF n, of 2] have
    "2 ^ (floorlog 2 (nat a) - 1) \<le> nat a" "nat a < 2 ^ floorlog 2 (nat a)" by simp_all
  with assms have "(2::int) ^ (floorlog 2 (nat a) - 1) \<le> a" "a < (2::int) ^ floorlog 2 (nat a)"
    by (simp_all add: le_nat_iff nat_less_iff)
  then have "rat_of_int (2 ^ (floorlog 2 (nat a) - 1)) \<le> of_int a"
    "rat_of_int a < of_int (2 ^ floorlog 2 (nat a))"
    by (simp_all only: of_int_le_iff of_int_less_iff)
  moreover from n have "1 \<le> floorlog 2 (nat a)"
    by (simp add: floorlog_def)
  ultimately show ?thesis by simp
qed

lemma binade_bounds:
  assumes "0 < z"
  shows "2 powi binade z \<le> z \<and> z < 2 powi (binade z + 1)"
proof -
  obtain a b where q: "quotient_of z = (a, b)" by (cases "quotient_of z")
  have b: "0 < b" using quotient_of_denom_pos [OF q] .
  have z: "z = of_int a / of_int b" using quotient_of_div [OF q] .
  have a: "0 < a" using assms b z by (simp add: zero_less_divide_iff)
  define fa where "fa = floorlog 2 (nat a)"
  define fb where "fb = floorlog 2 (nat b)"
  from floorlog2_int_bounds [OF a] have A: "(2::rat) ^ (fa - 1) \<le> of_int a"
    "of_int a < (2::rat) ^ fa" "1 \<le> fa" by (simp_all add: fa_def)
  from floorlog2_int_bounds [OF b] have B: "(2::rat) ^ (fb - 1) \<le> of_int b"
    "of_int b < (2::rat) ^ fb" "1 \<le> fb" by (simp_all add: fb_def)
  have pb: "0 < rat_of_int b" using b by simp
  have "z < 2 ^ fa / 2 ^ (fb - 1)"
  proof -
    have "z < 2 ^ fa / of_int b" unfolding z using A(2) pb by (simp add: divide_strict_right_mono)
    also have "\<dots> \<le> 2 ^ fa / 2 ^ (fb - 1)" using B(1) by (simp add: frac_le)
    finally show ?thesis .
  qed
  moreover have "(2::rat) powi (int fa - int fb + 1) = 2 ^ fa / 2 ^ (fb - 1)"
  proof -
    have e: "int fa - int fb + 1 = int fa - int (fb - 1)" using B(3) by simp
    show ?thesis unfolding e by (simp add: power_int_diff)
  qed
  ultimately have up: "z < 2 powi (int fa - int fb + 1)" by simp
  have "2 ^ (fa - 1) / 2 ^ fb < z"
  proof -
    have "(2::rat) ^ (fa - 1) / 2 ^ fb < 2 ^ (fa - 1) / of_int b"
      using B(2) pb by (simp add: divide_strict_left_mono)
    also have "\<dots> \<le> z" unfolding z using A(1) pb by (simp add: divide_right_mono)
    finally show ?thesis .
  qed
  moreover have "(2::rat) powi (int fa - int fb - 1) = 2 ^ (fa - 1) / 2 ^ fb"
  proof -
    have e: "int fa - int fb - 1 = int (fa - 1) - int fb" using A(3) by simp
    show ?thesis unfolding e by (simp add: power_int_diff)
  qed
  ultimately have lo: "2 powi (int fa - int fb - 1) < z" by simp
  show ?thesis
  proof (cases "2 powi (int fa - int fb) \<le> z")
    case True
    with up show ?thesis by (simp add: binade_def q fa_def fb_def)
  next
    case False
    with lo show ?thesis by (simp add: binade_def q fa_def fb_def)
  qed
qed

lemma binade_less:
  assumes "0 < z" "z < 2 powi k"
  shows "binade z < k"
proof -
  from binade_bounds [OF assms(1)] assms(2) have "(2::rat) powi binade z < 2 powi k" by simp
  then show ?thesis
    by (metis not_less power_int_increasing one_le_numeral leD)
qed

lemma round_half_even_of_int [simp]: "round_half_even (of_int k) = k"
  by (simp add: round_half_even_def)

lemma round_half_even_le: "w \<le> of_int k \<Longrightarrow> round_half_even w \<le> k"
  by (simp add: round_half_even_def Let_def) linarith

lemma round_half_even_ge: "of_int k \<le> w \<Longrightarrow> k \<le> round_half_even w"
  by (simp add: round_half_even_def Let_def) linarith

lemma round_half_even_error: "\<bar>of_int (round_half_even w) - w\<bar> \<le> 1 / 2"
proof -
  have "of_int \<lfloor>w\<rfloor> \<le> w" "w < of_int \<lfloor>w\<rfloor> + 1" by linarith+
  then show ?thesis
    unfolding round_half_even_def Let_def by (simp add: abs_if) linarith
qed


lemma to_double_pos:
  assumes "0 < z" "z < 2 powi k" "- 1021 \<le> k" "k \<le> 53"
  shows "\<exists>N. 53 - k \<le> int N \<and>
             to_double z = Num (of_int (round_half_even (z * 2 ^ N)) / 2 ^ N)"
proof -
  define j where "j = max (binade z) (- 1022) - 52"
  define N where "N = nat (- j)"
  from binade_less [OF assms(1,2)] assms(3,4) have j: "j \<le> k - 53" "j \<le> 0"
    by (simp_all add: j_def)
  then have jN: "j = - int N" and Nk: "53 - k \<le> int N" by (simp_all add: N_def)
  have ulp: "(2::rat) powi j = 1 / 2 ^ N"
    unfolding jN by (simp add: power_int_minus_divide)
  define m where "m = round_half_even (z * 2 ^ N)"
  have "z * 2 ^ N \<le> 2 powi 53 * 2 ^ N"
  proof -
    have "z \<le> 2 powi k" using assms(2) by simp
    also have "\<dots> \<le> 2 powi 53" using assms(4) by (intro power_int_increasing) simp_all
    finally show ?thesis by simp
  qed
  then have "z * 2 ^ N \<le> of_int (2 ^ 53 * 2 ^ N)" by simp
  then have "m \<le> 2 ^ 53 * 2 ^ N" unfolding m_def by (rule round_half_even_le)
  then have "rat_of_int m \<le> of_int (2 ^ 53 * 2 ^ N)" by (simp only: of_int_le_iff)
  then have "of_int m / 2 ^ N \<le> (2::rat) ^ 53" by (simp add: divide_le_eq)
  also have "\<dots> < 2 ^ 1024" by simp
  finally have fin: "\<not> (2::rat) ^ 1024 \<le> of_int m / 2 ^ N" by simp
  from assms(1) fin have "to_double z = Num (of_int m / 2 ^ N)"
    by (simp add: to_double_def Let_def j_def [symmetric] ulp m_def [symmetric])
  with Nk show ?thesis unfolding m_def by blast
qed

lemma to_double_le_int:
  assumes "0 \<le> z" "z \<le> of_int B" "B < 2 ^ 53"
  shows "\<exists>r. to_double z = Num r \<and> 0 \<le> r \<and> r \<le> of_int B"
proof (cases "z = 0")
  case True
  with assms show ?thesis by (simp add: to_double_def)
next
  case False
  with assms have z: "0 < z" by simp
  from assms(2,3) have "z < 2 powi 53"
  proof -
    from assms(3) have "rat_of_int B < of_int (2 ^ 53)" by (simp only: of_int_less_iff)
    with assms(2) show ?thesis by simp
  qed
  from to_double_pos [OF z this] obtain N where
    d: "to_double z = Num (of_int (round_half_even (z * 2 ^ N)) / 2 ^ N)" by auto
  have "z * 2 ^ N \<le> of_int (B * 2 ^ N)" using assms(2) by simp
  then have "round_half_even (z * 2 ^ N) \<le> B * 2 ^ N" by (rule round_half_even_le)
  then have "rat_of_int (round_half_even (z * 2 ^ N)) \<le> of_int (B * 2 ^ N)"
    by (simp only: of_int_le_iff)
  then have u: "of_int (round_half_even (z * 2 ^ N)) / 2 ^ N \<le> rat_of_int B"
    by (simp add: divide_le_eq)
  have "of_int 0 \<le> z * 2 ^ N" using z by simp
  then have "0 \<le> round_half_even (z * 2 ^ N)" by (rule round_half_even_ge)
  then have "0 \<le> rat_of_int (round_half_even (z * 2 ^ N)) / 2 ^ N" by simp
  with d u show ?thesis by simp
qed

lemma to_double_half_exact:
  assumes "0 \<le> C" "C < 2 ^ 53"
  shows "to_double (of_int C / 2) = Num (of_int C / 2)"
proof (cases "C = 0")
  case True
  then show ?thesis by (simp add: to_double_def)
next
  case False
  with assms have z: "0 < rat_of_int C / 2" by simp
  have "rat_of_int C < of_int (2 ^ 53)" using assms(2) by (simp only: of_int_less_iff)
  then have "rat_of_int C / 2 < 2 powi 52" by simp
  from to_double_pos [OF z this] obtain N where N: "1 \<le> int N" and
    d: "to_double (of_int C / 2)
          = Num (of_int (round_half_even (of_int C / 2 * 2 ^ N)) / 2 ^ N)" by auto
  from N obtain M where M: "N = Suc M" by (cases N) simp_all
  have eq: "rat_of_int C / 2 * 2 ^ N = of_int (C * 2 ^ M)" by (simp add: M)
  have r: "round_half_even (of_int C / 2 * 2 ^ N) = C * 2 ^ M"
    unfolding eq by (rule round_half_even_of_int)
  have v: "rat_of_int (C * 2 ^ M) / 2 ^ N = of_int C / 2" by (simp add: M)
  show ?thesis by (simp only: d r v)
qed

lemma to_double_int_exact:
  assumes "0 \<le> B" "B < 2 ^ 52"
  shows "to_double (of_int B) = Num (of_int B)"
proof -
  from assms have "0 \<le> 2 * B" "2 * B < 2 ^ 53" by simp_all
  from to_double_half_exact [OF this] show ?thesis by simp
qed

lemma to_double_error:
  assumes "0 < z" "z < 2 powi k" "- 1021 \<le> k" "k \<le> 53"
  shows "\<exists>r. to_double z = Num r \<and> \<bar>r - z\<bar> \<le> 2 powi (k - 54)"
proof -
  from to_double_pos [OF assms] obtain N where N: "53 - k \<le> int N" and
    d: "to_double z = Num (of_int (round_half_even (z * 2 ^ N)) / 2 ^ N)" by auto
  define m where "m = round_half_even (z * 2 ^ N)"
  have "\<bar>of_int m / 2 ^ N - z\<bar> = \<bar>of_int m - z * 2 ^ N\<bar> / 2 ^ N"
    by (simp add: field_simps abs_divide flip: abs_mult)
  also have "\<dots> \<le> (1 / 2) / 2 ^ N"
    using round_half_even_error [of "z * 2 ^ N"] unfolding m_def
    by (rule divide_right_mono) simp
  also have "\<dots> = 2 powi (- 1 - int N)"
    by (simp add: power_int_diff power_int_minus_divide)
  also have "\<dots> \<le> 2 powi (k - 54)"
    using N by (intro power_int_increasing) simp_all
  finally show ?thesis using d by (simp add: m_def)
qed

lemma binade_eq:
  assumes "2 powi e \<le> z" "z < 2 powi (e + 1)"
  shows "binade z = e"
proof -
  have z: "0 < z" by (rule less_le_trans [OF _ assms(1)]) simp
  from binade_bounds [OF z] have b: "2 powi binade z \<le> z" "z < 2 powi (binade z + 1)"
    by simp_all
  from binade_less [OF z assms(2)] have "binade z < e + 1" .
  moreover have "\<not> binade z < e"
  proof
    assume "binade z < e"
    then have "(2::rat) powi (binade z + 1) \<le> 2 powi e"
      by (intro power_int_increasing) simp_all
    with b(2) assms(1) show False by simp
  qed
  ultimately show ?thesis by simp
qed

text \<open>The double nearest to a rational of a known exponent.\<close>

lemma to_double_normal:
  assumes "2 powi e \<le> z" "z < 2 powi (e + 1)" "- 1022 \<le> e" "e \<le> 52"
  shows "to_double z
           = Num (of_int (round_half_even (z * 2 ^ nat (52 - e))) / 2 ^ nat (52 - e))"
proof -
  define N where "N = nat (52 - e)"
  have z: "0 < z" by (rule less_le_trans [OF _ assms(1)]) simp
  have e: "binade z = e" using assms(1,2) by (rule binade_eq)
  from assms(3,4) have eN: "e - 52 = - int N" "e + 1 \<le> 53" by (simp_all add: N_def)
  have ulp: "(2::rat) powi (e - 52) = 1 / 2 ^ N"
    unfolding eN by (simp add: power_int_minus_divide)
  define m where "m = round_half_even (z * 2 ^ N)"
  have "z * 2 ^ N \<le> 2 powi 53 * 2 ^ N"
  proof -
    have "z \<le> 2 powi (e + 1)" using assms(2) by simp
    also have "\<dots> \<le> 2 powi 53" using eN(2) by (intro power_int_increasing) simp_all
    finally show ?thesis by simp
  qed
  then have "z * 2 ^ N \<le> of_int (2 ^ 53 * 2 ^ N)" by simp
  then have "m \<le> 2 ^ 53 * 2 ^ N" unfolding m_def by (rule round_half_even_le)
  then have "rat_of_int m \<le> of_int (2 ^ 53 * 2 ^ N)" by (simp only: of_int_le_iff)
  then have "of_int m / 2 ^ N \<le> (2::rat) ^ 53" by (simp add: divide_le_eq)
  also have "\<dots> < 2 ^ 1024" by simp
  finally have fin: "\<not> (2::rat) ^ 1024 \<le> of_int m / 2 ^ N" by simp
  from z fin assms(3) have "to_double z = Num (of_int m / 2 ^ N)"
    by (simp add: to_double_def Let_def e ulp m_def [symmetric])
  then show ?thesis unfolding m_def N_def .
qed

lemma round_half_even_eqI:
  assumes "\<bar>w - of_int m\<bar> < 1 / 2"
  shows "round_half_even w = m"
proof -
  from round_half_even_error [of w] assms
  have "\<bar>rat_of_int (round_half_even w) - of_int m\<bar> < 1" by linarith
  then have "\<bar>rat_of_int (round_half_even w - m)\<bar> < of_int 1" by simp
  then have "\<bar>round_half_even w - m\<bar> < 1" by (simp only: of_int_less_iff flip: of_int_abs)
  then show ?thesis by simp
qed

lemma to_double_nearI:
  assumes "2 powi e \<le> z" "z < 2 powi (e + 1)" "- 1022 \<le> e" "e \<le> 52"
    and "\<bar>z * 2 ^ nat (52 - e) - of_int m\<bar> < 1 / 2"
  shows "to_double z = Num (of_int m / 2 ^ nat (52 - e))"
  unfolding to_double_normal [OF assms(1-4)] round_half_even_eqI [OF assms(5)] ..

subsection \<open>Overall score\<close>

lemma to_double_error0:
  assumes "0 \<le> z" "z < 2 powi k" "- 1021 \<le> k" "k \<le> 53"
  shows "\<exists>r. to_double z = Num r \<and> \<bar>r - z\<bar> \<le> 2 powi (k - 54)"
proof (cases "z = 0")
  case True
  then show ?thesis by (simp add: to_double_def)
next
  case False
  with assms(1) have "0 < z" by simp
  from to_double_error [OF this assms(2-4)] show ?thesis .
qed

text \<open>The sum of scores between 0 and 10 stays between 0 and ten times their number.\<close>

lemma sum_scores_bounded:
  assumes "list_all (\<lambda>r. 0 \<le> score r \<and> score r \<le> 10) rs"
    and "0 \<le> a" and "a \<le> of_int B" and "B + 10 * int (length rs) < 2 ^ 53"
  shows "\<exists>t. foldl (\<lambda>sum r. add_number sum (Num (score r))) (Num a) rs = Num t \<and>
             0 \<le> t \<and> t \<le> of_int (B + 10 * int (length rs))"
  using assms
proof (induction rs arbitrary: a B)
  case Nil
  then show ?case by simp
next
  case (Cons r rs)
  from Cons.prems(1) have r: "0 \<le> score r" "score r \<le> 10"
    and rs: "list_all (\<lambda>r. 0 \<le> score r \<and> score r \<le> 10) rs" by simp_all
  from r Cons.prems(2,3) have "0 \<le> a + score r" "a + score r \<le> of_int (B + 10)" by simp_all
  moreover from Cons.prems(4) have "B + 10 < 2 ^ 53" by simp
  ultimately obtain t where t: "to_double (a + score r) = Num t" "0 \<le> t" "t \<le> of_int (B + 10)"
    using to_double_le_int by blast
  from Cons.prems(4) have "(B + 10) + 10 * int (length rs) < 2 ^ 53" by simp
  from Cons.IH [OF rs t(2) t(3) this] show ?case by (simp add: t(1) algebra_simps)
qed

text \<open>The sum of multiples of a half is exact.\<close>

lemma half_point_cases:
  assumes "half_point z"
  obtains c where "z = of_int c / 2" "0 \<le> c" "c \<le> 20"
proof -
  from assms have "0 \<le> z \<and> z \<le> 10 \<and> of_int \<lfloor>2 * z\<rfloor> = 2 * z"
    unfolding half_point_def .
  then have z: "0 \<le> z" "z \<le> 10" "of_int \<lfloor>2 * z\<rfloor> = 2 * z" by blast+
  have "z = (2 * z) / 2" by simp
  then have "z = of_int \<lfloor>2 * z\<rfloor> / 2" by (simp only: z(3))
  moreover from z(1) have "0 \<le> \<lfloor>2 * z\<rfloor>" by simp
  moreover from z(2) have "\<lfloor>2 * z\<rfloor> \<le> 20" by (simp add: floor_le_iff)
  ultimately show ?thesis by (rule that)
qed

lemma sum_scores_exact:
  assumes "list_all (\<lambda>r. half_point (score r)) rs"
    and "0 \<le> C" and "C + 20 * int (length rs) < 2 ^ 53"
  shows "\<exists>D. foldl (\<lambda>sum r. add_number sum (Num (score r))) (Num (of_int C / 2)) rs
               = Num (of_int D / 2) \<and>
             of_int D / 2 = of_int C / 2 + sum_list (map score rs) \<and>
             C \<le> D \<and> D \<le> C + 20 * int (length rs)"
  using assms
proof (induction rs arbitrary: C)
  case Nil
  then show ?case by simp
next
  case (Cons r rs)
  from Cons.prems(1) have rs: "list_all (\<lambda>r. half_point (score r)) rs"
    and hp: "half_point (score r)" by simp_all
  from hp obtain c where c: "score r = of_int c / 2" "0 \<le> c" "c \<le> 20"
    by (rule half_point_cases)
  have s: "rat_of_int C / 2 + score r = of_int (C + c) / 2" by (simp add: c(1) add_divide_distrib)
  from c Cons.prems(2,3) have C': "0 \<le> C + c" "C + c < 2 ^ 53" by simp_all
  have step: "add_number (Num (of_int C / 2)) (Num (score r)) = Num (of_int (C + c) / 2)"
    unfolding add_number.simps s by (rule to_double_half_exact [OF C'])
  from c Cons.prems(3) have "(C + c) + 20 * int (length rs) < 2 ^ 53" by simp
  from Cons.IH [OF rs C'(1) this] obtain D where
    D: "foldl (\<lambda>sum r. add_number sum (Num (score r))) (Num (of_int (C + c) / 2)) rs
          = Num (of_int D / 2)"
       "rat_of_int D / 2 = of_int (C + c) / 2 + sum_list (map score rs)"
       "C + c \<le> D" "D \<le> (C + c) + 20 * int (length rs)" by blast
  have "foldl (\<lambda>sum r. add_number sum (Num (score r))) (Num (of_int C / 2)) (r # rs)
          = Num (of_int D / 2)"
    by (simp only: foldl_Cons step D(1))
  moreover have "rat_of_int D / 2 = of_int C / 2 + sum_list (map score (r # rs))"
    using D(2) s by simp
  moreover from D(3,4) c have "C \<le> D" "D \<le> C + 20 * int (length (r # rs))" by simp_all
  ultimately show ?case by blast
qed

text \<open>
  From the sum to the product: the quotient by ten times the number of results and its
  product by 100 are each rounded once, and the product is within \<open>1 / 2 ^ 45\<close> of the
  exact value.
\<close>

lemma product_of_total:
  assumes "0 \<le> t" and "t \<le> 10 * of_nat n" and "0 < n" and "n < 2 ^ 32"
  shows "\<exists>P. times_number
               (divide_number (Num t) (times_number (Num (of_nat n)) (Num 10))) (Num 100)
               = Num P \<and>
             0 \<le> P \<and> P \<le> 100 \<and> \<bar>P - 100 * t / (10 * of_nat n)\<bar> \<le> 1 / 2 ^ 45"
proof -
  define q where "q = t / (of_nat n * 10)"
  from assms(4) have "int n < 2 ^ 32" by (simp only: flip: of_nat_less_iff [where 'a = int]) simp
  then have "0 \<le> 10 * int n" "10 * int n < 2 ^ 52" by simp_all
  from to_double_int_exact [OF this]
  have m: "times_number (Num (of_nat n)) (Num 10) = Num (of_nat n * 10)"
    by (simp add: mult.commute)
  from assms(3) have n0: "(0::rat) < of_nat n * 10" by simp
  from assms(1) n0 have q0: "0 \<le> q" by (simp add: q_def)
  from assms(2) n0 have q1: "q \<le> 1" by (simp add: q_def pos_divide_le_eq mult.commute)
  then have "q \<le> of_int 1" by simp
  from to_double_le_int [OF q0 this] obtain Q where
    Q: "to_double q = Num Q" "0 \<le> Q" "Q \<le> 1" by auto
  from q1 have "q < 2 powi 1" by simp
  from to_double_error0 [OF q0 this] Q(1) have eQ: "\<bar>Q - q\<bar> \<le> 1 / 2 ^ 53"
    by (simp add: power_int_minus_divide)
  from n0 have d: "divide_number (Num t) (Num (of_nat n * 10)) = Num Q"
    by (simp add: q_def [symmetric] Q(1))
  from Q(2) have p0: "0 \<le> Q * 100" by simp
  from Q(3) have p1: "Q * 100 \<le> of_int 100" by simp
  from to_double_le_int [OF p0 p1] obtain P where
    P: "to_double (Q * 100) = Num P" "0 \<le> P" "P \<le> 100" by auto
  from Q(3) have "Q * 100 < 2 powi 7" by simp
  from to_double_error0 [OF p0 this] P(1) have eP: "\<bar>P - Q * 100\<bar> \<le> 1 / 2 ^ 47"
    by (simp add: power_int_minus_divide)
  have v: "100 * t / (10 * of_nat n) = q * 100" by (simp add: q_def mult.commute)
  have "\<bar>P - q * 100\<bar> \<le> \<bar>P - Q * 100\<bar> + \<bar>Q - q\<bar> * 100" by (simp add: abs_if split: if_splits)
  also have "\<dots> \<le> 1 / 2 ^ 47 + 1 / 2 ^ 53 * 100" using eP eQ by simp
  also have "\<dots> \<le> 1 / 2 ^ 45" by simp
  finally have e: "\<bar>P - 100 * t / (10 * of_nat n)\<bar> \<le> 1 / 2 ^ 45" unfolding v .
  have p: "times_number (Num Q) (Num 100) = Num P" by (simp add: P(1))
  have "times_number
          (divide_number (Num t) (times_number (Num (of_nat n)) (Num 10))) (Num 100) = Num P"
    by (simp only: m d p)
  with P(2,3) e show ?thesis by blast
qed

text \<open>
  A value within \<open>1 / 2 ^ 45\<close> of a fraction of denominator \<open>2 * n\<close>, with \<open>n\<close> below
  \<open>2 ^ 32\<close>, rounds to an integer nearest to the fraction.
\<close>

lemma Math_round_nearest:
  assumes "0 < n" and "n < 2 ^ 32" and "v * of_nat n = of_int A"
    and "\<bar>P - v\<bar> \<le> 1 / 2 ^ 45"
  shows "\<bar>of_int (Math_round P) - v\<bar> \<le> 1 / 2"
proof -
  define m where "m = Math_round P"
  define N where "N = (of_nat n :: rat)"
  from assms(2) have "rat_of_nat n < of_nat (2 ^ 32)" by (simp only: of_nat_less_iff)
  with assms(1) have N: "0 < N" "N < 2 ^ 32" by (simp_all add: N_def)
  have lo: "of_int m - 1 / 2 \<le> P" and hi: "P < of_int m + 1 / 2"
    unfolding m_def Math_round_def by linarith+
  have gap: "1 / 2 ^ 45 < 1 / (2 * N)"
  proof -
    from N have "2 * N < 2 ^ 45" by simp
    with N(1) show ?thesis by (simp add: frac_less2)
  qed
  have up: "v \<le> of_int m + 1 / 2"
  proof (rule ccontr)
    assume "\<not> v \<le> of_int m + 1 / 2"
    then have a: "of_int m + 1 / 2 < v" by simp
    have "2 * N * (v - of_int m - 1 / 2) = of_int (2 * A - 2 * int n * m - int n)"
      using assms(3) by (simp add: N_def algebra_simps)
    moreover from a N(1) have "0 < 2 * N * (v - of_int m - 1 / 2)" by simp
    ultimately have "0 < rat_of_int (2 * A - 2 * int n * m - int n)" by simp
    then have "0 < 2 * A - 2 * int n * m - int n" by (simp only: of_int_0_less_iff)
    then have "1 \<le> 2 * A - 2 * int n * m - int n" by simp
    then have "rat_of_int 1 \<le> of_int (2 * A - 2 * int n * m - int n)"
      by (simp only: of_int_le_iff)
    also have "\<dots> = 2 * N * (v - of_int m - 1 / 2)"
      using assms(3) by (simp add: N_def algebra_simps)
    finally have "1 / (2 * N) \<le> v - of_int m - 1 / 2"
      using N(1) by (simp add: pos_divide_le_eq mult.commute)
    moreover from hi assms(4) have "v - of_int m - 1 / 2 \<le> 1 / 2 ^ 45" by (simp add: abs_if split: if_splits)
    ultimately show False using gap by simp
  qed
  have down: "of_int m - 1 / 2 \<le> v"
  proof (rule ccontr)
    assume "\<not> of_int m - 1 / 2 \<le> v"
    then have a: "v < of_int m - 1 / 2" by simp
    have e: "2 * N * (of_int m - 1 / 2 - v) = of_int (2 * int n * m - int n - 2 * A)"
      using assms(3) by (simp add: N_def algebra_simps)
    from a N(1) have "0 < 2 * N * (of_int m - 1 / 2 - v)" by simp
    with e have "0 < rat_of_int (2 * int n * m - int n - 2 * A)" by simp
    then have "0 < 2 * int n * m - int n - 2 * A" by (simp only: of_int_0_less_iff)
    then have "1 \<le> 2 * int n * m - int n - 2 * A" by simp
    then have "rat_of_int 1 \<le> of_int (2 * int n * m - int n - 2 * A)"
      by (simp only: of_int_le_iff)
    also note e [symmetric]
    finally have "1 / (2 * N) \<le> of_int m - 1 / 2 - v"
      using N(1) by (simp add: pos_divide_le_eq mult.commute)
    moreover from lo assms(4) have "of_int m - 1 / 2 - v \<le> 1 / 2 ^ 45" by (simp add: abs_if split: if_splits)
    ultimately show False using gap by simp
  qed
  from up down show ?thesis unfolding m_def by (simp add: abs_if)
qed

lemma nearest_round:
  assumes "\<bar>of_int m - v\<bar> \<le> 1 / 2"
  shows "m = round v \<or> m = round v - 1 \<and> v = of_int m + 1 / 2"
proof (cases "v = of_int m + 1 / 2")
  case True
  then have "v + 1 / 2 = of_int (m + 1)" by simp
  then have "round v = m + 1" unfolding round_def by (simp only: floor_of_int)
  with True show ?thesis by simp
next
  case False
  with assms have "of_int m \<le> v + 1 / 2" "v + 1 / 2 < of_int m + 1" by linarith+
  then have "round v = m" unfolding round_def by (rule floor_unique)
  then show ?thesis by simp
qed

lemma Math_round_bounds:
  assumes "0 \<le> P" and "P \<le> 100"
  shows "0 \<le> Math_round P \<and> Math_round P \<le> 100"
  using assms unfolding Math_round_def by (simp add: floor_le_iff le_floor_iff)

lemma overallScore_generateReport:
  "overallScore (generateReport s) =
     round_number
       (times_number
          (divide_number
             (foldl (\<lambda>sum r. add_number sum (Num (score r))) (Num 0) (results s))
             (times_number (Num (of_nat (length (results s)))) (Num 10)))
          (Num 100))"
  by (simp add: generateReport_def Let_def
        del: add_number.simps times_number.simps divide_number.simps)

text \<open>
  Claim C1, as the code has it. For the empty sequence of results the program has no
  convention: it divides zero by zero and the overall score is not a number. For a
  non-empty sequence, which holds fewer than \<open>2 ^ 32\<close> results, of scores between 0 and
  10 the overall score is a whole number between 0 and 100. When the scores are
  multiples of a half, as the probes give them, the sum is exact, the quotient and the
  product are each rounded to a double, and the overall score is
  \<open>round (100 * sum of scores / (10 * number of results))\<close>, or one less when that
  value lies halfway between two whole numbers.
\<close>

theorem overall_score:
  "(results s = [] \<longrightarrow> overallScore (generateReport s) = NaN) \<and>
   (results s \<noteq> [] \<and> length (results s) < 2 ^ 32 \<and>
    list_all (\<lambda>r. 0 \<le> score r \<and> score r \<le> 10) (results s) \<longrightarrow>
      (\<exists>n::int. overallScore (generateReport s) = Num (of_int n) \<and> 0 \<le> n \<and> n \<le> 100)) \<and>
   (results s \<noteq> [] \<and> length (results s) < 2 ^ 32 \<and>
    list_all (\<lambda>r. half_point (score r)) (results s) \<longrightarrow>
      (\<exists>n::int. overallScore (generateReport s) = Num (of_int n) \<and> 0 \<le> n \<and> n \<le> 100 \<and>
         (n = round (100 * sum_list (map score (results s))
                       / (10 * of_nat (length (results s)))) \<or>
          n = round (100 * sum_list (map score (results s))
                       / (10 * of_nat (length (results s)))) - 1 \<and>
          100 * sum_list (map score (results s)) / (10 * of_nat (length (results s)))
            = of_int n + 1 / 2)))"
proof (intro conjI impI)
  assume "results s = []"
  then show "overallScore (generateReport s) = NaN"
    by (simp add: generateReport_def Let_def to_double_def round_number_def)
next
  assume a: "results s \<noteq> [] \<and> length (results s) < 2 ^ 32 \<and>
    list_all (\<lambda>r. 0 \<le> score r \<and> score r \<le> 10) (results s)"
  define n where "n = length (results s)"
  from a have n: "0 < n" "n < 2 ^ 32" by (simp_all add: n_def)
  from n(2) have "int n < 2 ^ 32" by (simp only: flip: of_nat_less_iff [where 'a = int]) simp
  then have "0 + 10 * int (length (results s)) < 2 ^ 53" by (simp add: n_def)
  with a sum_scores_bounded [of "results s" 0 0] obtain t where
    t: "foldl (\<lambda>sum r. add_number sum (Num (score r))) (Num 0) (results s) = Num t"
       "0 \<le> t" "t \<le> 10 * of_nat n" by (auto simp: n_def)
  from product_of_total [OF t(2,3) n] obtain P where
    P: "times_number
          (divide_number (Num t) (times_number (Num (of_nat n)) (Num 10))) (Num 100) = Num P"
       "0 \<le> P" "P \<le> 100" by blast
  have "overallScore (generateReport s) = Num (of_int (Math_round P))"
    unfolding overallScore_generateReport t(1) n_def [symmetric] P(1)
    by (simp add: round_number_def)
  with Math_round_bounds [OF P(2,3)] show
    "\<exists>n::int. overallScore (generateReport s) = Num (of_int n) \<and> 0 \<le> n \<and> n \<le> 100"
    by blast
next
  assume a: "results s \<noteq> [] \<and> length (results s) < 2 ^ 32 \<and>
    list_all (\<lambda>r. half_point (score r)) (results s)"
  define n where "n = length (results s)"
  define S where "S = sum_list (map score (results s))"
  from a have n: "0 < n" "n < 2 ^ 32" by (simp_all add: n_def)
  from n(2) have "int n < 2 ^ 32" by (simp only: flip: of_nat_less_iff [where 'a = int]) simp
  then have "0 + 20 * int (length (results s)) < 2 ^ 53" by (simp add: n_def)
  with a sum_scores_exact [of "results s" 0] obtain D where
    D: "foldl (\<lambda>sum r. add_number sum (Num (score r))) (Num 0) (results s) = Num S"
       "rat_of_int D / 2 = S" "0 \<le> D" "D \<le> 20 * int n" by (auto simp: n_def S_def)
  from D(2,3) have S0: "0 \<le> S" by auto
  have S1: "S \<le> 10 * of_nat n"
  proof -
    from D(4) have "rat_of_int D \<le> of_int (20 * int n)" by (simp only: of_int_le_iff)
    with D(2) show ?thesis by auto
  qed
  from product_of_total [OF S0 S1 n] obtain P where
    P: "times_number
          (divide_number (Num S) (times_number (Num (of_nat n)) (Num 10))) (Num 100) = Num P"
       "0 \<le> P" "P \<le> 100" "\<bar>P - 100 * S / (10 * of_nat n)\<bar> \<le> 1 / 2 ^ 45" by blast
  have "100 * S / (10 * of_nat n) * of_nat n = of_int (5 * D)"
    using n(1) D(2) by auto
  from Math_round_nearest [OF n this P(4)]
  have "\<bar>of_int (Math_round P) - 100 * S / (10 * of_nat n)\<bar> \<le> 1 / 2" .
  then have near:
    "Math_round P = round (100 * S / (10 * of_nat n)) \<or>
     Math_round P = round (100 * S / (10 * of_nat n)) - 1 \<and>
     100 * S / (10 * of_nat n) = of_int (Math_round P) + 1 / 2"
    by (rule nearest_round)
  have "overallScore (generateReport s) = Num (of_int (Math_round P))"
    unfolding overallScore_generateReport D(1) n_def [symmetric] P(1)
    by (simp add: round_number_def)
  with Math_round_bounds [OF P(2,3)] near show
    "\<exists>n::int. overallScore (generateReport s) = Num (of_int n) \<and> 0 \<le> n \<and> n \<le> 100 \<and>
         (n = round (100 * sum_list (map score (results s))
                       / (10 * of_nat (length (results s)))) \<or>
          n = round (100 * sum_list (map score (results s))
                       / (10 * of_nat (length (results s)))) - 1 \<and>
          100 * sum_list (map score (results s)) / (10 * of_nat (length (results s)))
            = of_int n + 1 / 2)"
    unfolding S_def n_def by blast
qed

text \<open>
  A tester that has run no probe has no results, and its report's overall score is not
  0. Four results with the scores 10, 7, 5 and 1 give the overall score 57, while
  \<open>round (100 * 23 / (10 * 4))\<close> is 58: the quotient of 23 by 40 is rounded to a double
  below it, and 100 times that double to a double below 57.5.
\<close>

theorem overall_score_counterexample:
  "results new_UXUITester = [] \<and> overallScore (generateReport new_UXUITester) \<noteq> Num 0 \<and>
   map score (results four_findings) = [10, 7, 5, 1] \<and>
   overallScore (generateReport four_findings) = Num 57 \<and>
   round (100 * sum_list (map score (results four_findings))
            / (10 * of_nat (length (results four_findings)))) = 58"
proof -
  have e: "results new_UXUITester = []" by (simp add: new_UXUITester_def)
  have nan: "overallScore (generateReport new_UXUITester) \<noteq> Num 0"
    unfolding overallScore_generateReport e by (simp add: to_double_def round_number_def)
  have r: "map score (results four_findings) = [10, 7, 5, 1]"
    "length (results four_findings) = 4"
    by (simp_all add: four_findings_def two_findings_def new_UXUITester_def)
  have "foldl (\<lambda>sum r. add_number sum (Num (score r))) a (results four_findings)
          = foldl (\<lambda>sum c. add_number sum (Num c)) a (map score (results four_findings))" for a
    by (simp add: foldl_map)
  then have sum:
    "foldl (\<lambda>sum r. add_number sum (Num (score r))) (Num 0) (results four_findings)
       = add_number (add_number (add_number (add_number (Num 0) (Num 10)) (Num 7)) (Num 5))
           (Num 1)"
    unfolding r by simp
  have i: "to_double 10 = Num 10" "to_double 17 = Num 17" "to_double 22 = Num 22"
    "to_double 23 = Num 23" "to_double 40 = Num 40"
    using to_double_int_exact [of 10] to_double_int_exact [of 17] to_double_int_exact [of 22]
      to_double_int_exact [of 23] to_double_int_exact [of 40] by simp_all
  have total:
    "foldl (\<lambda>sum r. add_number sum (Num (score r))) (Num 0) (results four_findings) = Num 23"
    unfolding sum by (simp add: i)
  have maxScore: "times_number (Num (of_nat 4)) (Num 10) = Num 40" by (simp add: i)
  have quotient: "to_double (23 / 40) = Num (2589569785738035 / 4503599627370496)"
    using to_double_nearI [of "- 1" "23 / 40" 5179139571476070] by simp
  have product: "to_double (2589569785738035 / 4503599627370496 * 100)
                   = Num (8092405580431359 / 140737488355328)"
    using to_double_nearI [of 5 "2589569785738035 / 4503599627370496 * 100" 8092405580431359]
    by simp
  have d: "divide_number (Num 23) (Num 40) = Num (2589569785738035 / 4503599627370496)"
    by (simp add: quotient)
  have p: "times_number (Num (2589569785738035 / 4503599627370496)) (Num 100)
             = Num (8092405580431359 / 140737488355328)"
    unfolding times_number.simps by (rule product)
  have m: "round_number (Num (8092405580431359 / 140737488355328)) = Num 57"
    by (simp add: round_number_def Math_round_def floor_eq_iff)
  have "overallScore (generateReport four_findings) = Num 57"
    unfolding overallScore_generateReport total r(2) maxScore d p m ..
  moreover have "round (100 * sum_list (map score (results four_findings))
            / (10 * of_nat (length (results four_findings)))) = 58"
    unfolding r by (simp add: round_def floor_eq_iff)
  ultimately show ?thesis using e nan r(1) by simp
qed

text \<open>Two results with scores 10 and 7 give the overall score 85; no result gives
  \<open>NaN\<close>.\<close>

theorem overall_score_witness:
  "results new_UXUITester = [] \<and> overallScore (generateReport new_UXUITester) = NaN \<and>
   results two_findings \<noteq> [] \<and> length (results two_findings) < 2 ^ 32 \<and>
   list_all (\<lambda>r. 0 \<le> score r \<and> score r \<le> 10) (results two_findings) \<and>
   list_all (\<lambda>r. half_point (score r)) (results two_findings) \<and>
   overallScore (generateReport two_findings) = Num 85"
proof -
  have r: "map score (results two_findings) = [10, 7]"
    "results two_findings \<noteq> []" "length (results two_findings) = 2"
    by (simp_all add: two_findings_def new_UXUITester_def)
  have h: "list_all (\<lambda>r. half_point (score r)) (results two_findings)"
    "list_all (\<lambda>r. 0 \<le> score r \<and> score r \<le> 10) (results two_findings)"
    by (simp_all add: two_findings_def new_UXUITester_def half_point_def)
  have e: "results new_UXUITester = []" by (simp add: new_UXUITester_def)
  from overall_score [of new_UXUITester] e
  have nan: "overallScore (generateReport new_UXUITester) = NaN" by simp
  have v: "(100 * sum_list (map score (results two_findings))
              / (10 * of_nat (length (results two_findings))) :: rat) = of_int 85"
    unfolding r by simp
  from overall_score [of two_findings] r(2,3) h obtain n :: int where
    n: "overallScore (generateReport two_findings) = Num (of_int n)"
       "n = round (rat_of_int 85) \<or>
        n = round (rat_of_int 85) - 1 \<and> rat_of_int 85 = of_int n + 1 / 2"
    unfolding v by auto
  from n(2) have "n = 85"
  proof
    assume "n = round (rat_of_int 85)"
    then show ?thesis by (simp only: round_of_int)
  next
    assume "n = round (rat_of_int 85) - 1 \<and> rat_of_int 85 = of_int n + 1 / 2"
    then have "n = 84" "rat_of_int 85 = of_int n + 1 / 2" by (simp_all only: round_of_int)
    then show ?thesis by simp
  qed
  with n(1) e nan r h show ?thesis by simp
qed

subsection \<open>Evidence recorder\<close>

lemma find_index_Some:
  "find_index P xs = Some k \<Longrightarrow> k < length xs \<and> P (xs ! k)"
  by (induction xs arbitrary: k) (auto split: if_splits option.splits)

lemma find_index_None: "find_index P xs = None \<longleftrightarrow> (\<forall>x\<in>set xs. \<not> P x)"
  by (induction xs) (auto split: option.splits)

lemma list_all_update:
  "list_all Q xs \<Longrightarrow> Q v \<Longrightarrow> list_all Q (xs[k := v])"
  by (induction xs arbitrary: k) (auto split: nat.splits)

lemma storeProblemArea_cases:
  "(\<exists>k<length (problemAreas a).
       pa_category (problemAreas a ! k) = c \<and> pa_test (problemAreas a ! k) = t \<and>
       storeProblemArea c t i a =
         a\<lparr>problemAreas := (problemAreas a)
             [k := (problemAreas a ! k)\<lparr>issues := issues (problemAreas a ! k) @ [i]\<rparr>]\<rparr>) \<or>
   (list_all (\<lambda>pa. \<not> (pa_category pa = c \<and> pa_test pa = t)) (problemAreas a) \<and>
    storeProblemArea c t i a =
      a\<lparr>problemAreas := problemAreas a @ [\<lparr>pa_category = c, pa_test = t, issues = [i]\<rparr>]\<rparr>)"
proof (cases "find_index (\<lambda>pa. pa_category pa = c \<and> pa_test pa = t) (problemAreas a)")
  case None
  then have "list_all (\<lambda>pa. \<not> (pa_category pa = c \<and> pa_test pa = t)) (problemAreas a)"
    by (simp add: find_index_None list_all_iff)
  with None show ?thesis
    by (simp add: storeProblemArea_def Let_def)
next
  case (Some k)
  from find_index_Some [OF Some] Some show ?thesis
    by (auto simp: storeProblemArea_def Let_def)
qed

lemma storeProblemArea_nonempty:
  "areas_nonempty a \<Longrightarrow> areas_nonempty (storeProblemArea c t i a)"
  using storeProblemArea_cases [of a c t i]
  by (auto simp: areas_nonempty_def intro!: list_all_update)

lemma recordProblemArea_nonempty:
  "areas_nonempty a \<Longrightarrow> areas_nonempty (snd (recordProblemArea pg c t sel d sev r shot a))"
  by (auto simp: recordProblemArea_def Let_def storeProblemArea_nonempty
        split: sum.splits list.splits option.splits)

text \<open>
  Claim C10. No problem area held by the recorder has an empty list of issues. A new
  recorder satisfies this; \<open>storeProblemArea\<close>, \<open>recordProblemArea\<close> and
  \<open>clearProblemAreas\<close> preserve it. \<open>storeProblemArea\<close> either appends the issue to
  the existing area of the (category, test) pair, or, when no area has that pair, adds a
  new area that holds exactly this issue. \<open>clearProblemAreas\<close> leaves no area at all.
\<close>

theorem problem_areas_never_empty:
  "areas_nonempty (new_ScreenshotAnalyzer dir) \<and>
   (areas_nonempty a \<longrightarrow> areas_nonempty (storeProblemArea c t i a)) \<and>
   (areas_nonempty a \<longrightarrow>
      areas_nonempty (snd (recordProblemArea pg c t sel d sev r shot a))) \<and>
   areas_nonempty (clearProblemAreas a) \<and>
   problemAreas (clearProblemAreas a) = [] \<and>
   ((\<exists>k<length (problemAreas a).
       pa_category (problemAreas a ! k) = c \<and> pa_test (problemAreas a ! k) = t \<and>
       problemAreas (storeProblemArea c t i a) =
         (problemAreas a)
           [k := (problemAreas a ! k)\<lparr>issues := issues (problemAreas a ! k) @ [i]\<rparr>]) \<or>
    (list_all (\<lambda>pa. \<not> (pa_category pa = c \<and> pa_test pa = t)) (problemAreas a) \<and>
     problemAreas (storeProblemArea c t i a) =
       problemAreas a @ [\<lparr>pa_category = c, pa_test = t, issues = [i]\<rparr>]))"
proof -
  have "areas_nonempty (new_ScreenshotAnalyzer dir)"
    by (simp add: areas_nonempty_def new_ScreenshotAnalyzer_def)
  moreover have "areas_nonempty (clearProblemAreas a)"
    "problemAreas (clearProblemAreas a) = []"
    by (simp_all add: areas_nonempty_def clearProblemAreas_def)
  moreover from storeProblemArea_cases [of a c t i] have
   "(\<exists>k<length (problemAreas a).
       pa_category (problemAreas a ! k) = c \<and> pa_test (problemAreas a ! k) = t \<and>
       problemAreas (storeProblemArea c t i a) =
         (problemAreas a)
           [k := (problemAreas a ! k)\<lparr>issues := issues (problemAreas a ! k) @ [i]\<rparr>]) \<or>
    (list_all (\<lambda>pa. \<not> (pa_category pa = c \<and> pa_test pa = t)) (problemAreas a) \<and>
     problemAreas (storeProblemArea c t i a) =
       problemAreas a @ [\<lparr>pa_category = c, pa_test = t, issues = [i]\<rparr>])"
    by (elim disjE exE conjE) (simp_all, blast)
  ultimately show ?thesis
    using storeProblemArea_nonempty recordProblemArea_nonempty by blast
qed

text \<open>A recorder holding one area with one issue: storing under the same pair extends
  that area, storing under another pair adds an area, clearing leaves nothing.\<close>

theorem problem_areas_never_empty_witness:
  "areas_nonempty one_area \<and>
   problemAreas one_area =
     [\<lparr>pa_category = ''Visual Design'', pa_test = ''Image Alt Text'', issues = [alt_issue]\<rparr>] \<and>
   areas_nonempty (storeProblemArea ''Visual Design'' ''Image Alt Text'' alt_issue one_area) \<and>
   problemAreas (storeProblemArea ''Visual Design'' ''Image Alt Text'' alt_issue one_area) =
     [\<lparr>pa_category = ''Visual Design'', pa_test = ''Image Alt Text'',
       issues = [alt_issue, alt_issue]\<rparr>] \<and>
   problemAreas (storeProblemArea ''Visual Design'' ''Color Contrast'' alt_issue one_area) =
     [\<lparr>pa_category = ''Visual Design'', pa_test = ''Image Alt Text'', issues = [alt_issue]\<rparr>,
      \<lparr>pa_category = ''Visual Design'', pa_test = ''Color Contrast'', issues = [alt_issue]\<rparr>] \<and>
   problemAreas (clearProblemAreas one_area) = []"
proof -
  have one: "problemAreas one_area =
     [\<lparr>pa_category = ''Visual Design'', pa_test = ''Image Alt Text'', issues = [alt_issue]\<rparr>]"
    by (simp add: one_area_def storeProblemArea_def new_ScreenshotAnalyzer_def)
  have ne: "areas_nonempty one_area"
    by (simp add: areas_nonempty_def one)
  from problem_areas_never_empty
         [of config_screenshotsDir one_area "''Visual Design''" "''Image Alt Text''" alt_issue]
       problem_areas_never_empty
         [of config_screenshotsDir one_area "''Visual Design''" "''Color Contrast''" alt_issue]
       ne one
  show ?thesis
    by (simp add: list_all_iff)
qed

text \<open>
  Claim C5, as the code has it. \<open>recordProblemArea\<close> returns no issue exactly when the
  selector cannot be resolved to a bounding box: the page throws on it, it matches no
  element, or its first match has no bounding box; the recorder is then unchanged.
  Otherwise it returns the issue it created, with the selector, description, severity
  and recommendation it was given, and the recorder is the old one after
  \<open>storeProblemArea\<close>: the issue is appended to the area of the (category, test) pair,
  or, when no area has that pair, a new area holding exactly this issue is added.
\<close>

theorem recordProblemArea_outcome:
  "(fst (recordProblemArea pg c t sel d sev r shot a) = None \<longleftrightarrow>
      (\<exists>e. locate pg sel = Inl e) \<or> locate pg sel = Inr [] \<or>
      (\<exists>rest. locate pg sel = Inr (None # rest))) \<and>
   (fst (recordProblemArea pg c t sel d sev r shot a) = None \<longrightarrow>
      snd (recordProblemArea pg c t sel d sev r shot a) = a) \<and>
   (\<forall>issue. fst (recordProblemArea pg c t sel d sev r shot a) = Some issue \<longrightarrow>
      selector issue = sel \<and> description issue = d \<and> issue_severity issue = sev \<and>
      recommendation issue = r \<and>
      snd (recordProblemArea pg c t sel d sev r shot a) = storeProblemArea c t issue a \<and>
      ((\<exists>k<length (problemAreas a).
          pa_category (problemAreas a ! k) = c \<and> pa_test (problemAreas a ! k) = t \<and>
          problemAreas (snd (recordProblemArea pg c t sel d sev r shot a)) =
            (problemAreas a)
              [k := (problemAreas a ! k)\<lparr>issues := issues (problemAreas a ! k) @ [issue]\<rparr>]) \<or>
       (list_all (\<lambda>pa. \<not> (pa_category pa = c \<and> pa_test pa = t)) (problemAreas a) \<and>
        problemAreas (snd (recordProblemArea pg c t sel d sev r shot a)) =
          problemAreas a @ [\<lparr>pa_category = c, pa_test = t, issues = [issue]\<rparr>])))"
proof (intro conjI allI impI)
  show "fst (recordProblemArea pg c t sel d sev r shot a) = None \<longleftrightarrow>
      (\<exists>e. locate pg sel = Inl e) \<or> locate pg sel = Inr [] \<or>
      (\<exists>rest. locate pg sel = Inr (None # rest))"
    by (auto simp: recordProblemArea_def Let_def split: sum.splits list.splits option.splits)
next
  assume "fst (recordProblemArea pg c t sel d sev r shot a) = None"
  then show "snd (recordProblemArea pg c t sel d sev r shot a) = a"
    by (auto simp: recordProblemArea_def Let_def split: sum.splits list.splits option.splits)
next
  fix issue
  assume i: "fst (recordProblemArea pg c t sel d sev r shot a) = Some issue"
  then show "selector issue = sel" "description issue = d" "issue_severity issue = sev"
    "recommendation issue = r"
    by (auto simp: recordProblemArea_def Let_def split: sum.splits list.splits option.splits)
  from i show st: "snd (recordProblemArea pg c t sel d sev r shot a)
                     = storeProblemArea c t issue a"
    by (auto simp: recordProblemArea_def Let_def split: sum.splits list.splits option.splits)
  from storeProblemArea_cases [of a c t issue] show
    "(\<exists>k<length (problemAreas a).
          pa_category (problemAreas a ! k) = c \<and> pa_test (problemAreas a ! k) = t \<and>
          problemAreas (snd (recordProblemArea pg c t sel d sev r shot a)) =
            (problemAreas a)
              [k := (problemAreas a ! k)\<lparr>issues := issues (problemAreas a ! k) @ [issue]\<rparr>]) \<or>
       (list_all (\<lambda>pa. \<not> (pa_category pa = c \<and> pa_test pa = t)) (problemAreas a) \<and>
        problemAreas (snd (recordProblemArea pg c t sel d sev r shot a)) =
          problemAreas a @ [\<lparr>pa_category = c, pa_test = t, issues = [issue]\<rparr>])"
    unfolding st by (elim disjE exE conjE) (simp_all, blast)
qed

text \<open>A selector that matches one element that is not rendered: the match count is 1,
  and still no issue is returned.\<close>

theorem hidden_element_counterexample:
  "locate hidden_banner_page ''#banner'' = Inr [None] \<and>
   length [None :: box option] = 1 \<and>
   fst (recordProblemArea hidden_banner_page ''Visual Design'' ''Image Alt Text'' ''#banner''
          ''Image missing alt text - impacts accessibility'' High
          ''Add descriptive alt text to all images for better accessibility'' True
          (new_ScreenshotAnalyzer config_screenshotsDir)) = None"
  by (simp add: hidden_banner_page_def recordProblemArea_def)

text \<open>A hidden banner gives no issue and leaves the recorder as it was; a rendered logo
  gives an issue, stored in a new area of its pair.\<close>

theorem recordProblemArea_outcome_witness:
  "fst hidden_call = None \<and> snd hidden_call = one_area \<and>
   fst logo_call \<noteq> None \<and>
   selector (the (fst logo_call)) = ''#logo'' \<and>
   problemAreas (snd logo_call) =
     [\<lparr>pa_category = ''Navigation'', pa_test = ''Logo/Home Link'',
       issues = [the (fst logo_call)]\<rparr>]"
proof -
  have h: "locate hidden_banner_page ''#banner'' = Inr [None]"
    by (simp add: hidden_banner_page_def)
  have l: "fst logo_call \<noteq> None"
    by (simp add: logo_call_def recordProblemArea_def logo_page_def Let_def)
  then obtain issue where i: "fst logo_call = Some issue" by blast
  have n: "problemAreas (new_ScreenshotAnalyzer config_screenshotsDir) = []"
    by (simp add: new_ScreenshotAnalyzer_def)
  from recordProblemArea_outcome
         [of hidden_banner_page "''Visual Design''" "''Image Alt Text''" "''#banner''"
             "''Image missing alt text - impacts accessibility''" High
             "''Add descriptive alt text to all images for better accessibility''" True one_area]
       h
  have "fst hidden_call = None \<and> snd hidden_call = one_area"
    by (simp add: hidden_call_def)
  moreover
  from recordProblemArea_outcome
         [of logo_page "''Navigation''" "''Logo/Home Link''" "''#logo''"
             "''Logo is too small''" Low "''Enlarge the logo''" False
             "new_ScreenshotAnalyzer config_screenshotsDir"]
       i n
  have "selector issue = ''#logo'' \<and>
        problemAreas (snd logo_call) =
          [\<lparr>pa_category = ''Navigation'', pa_test = ''Logo/Home Link'', issues = [issue]\<rparr>]"
    unfolding logo_call_def [symmetric] by auto
  ultimately show ?thesis using l i by simp
qed

subsection \<open>Recommendations\<close>

lemma foldl_push: "foldl (\<lambda>acc v. push acc (f v)) acc xs = acc @ map f xs"
  by (induction xs arbitrary: acc) (simp_all add: push_def)

lemma find_None_iff_ex: "(find P xs = None) = (\<not> (\<exists>x\<in>set xs. P x))"
  by (induction xs) auto

text \<open>
  Claim C8, as the code has it. The list of recommendations is, in this order: when
  there is a failing result of high severity, a line giving their number followed by up
  to three of them, itemised; the load time recommendation when the load time exceeds
  3000 ms; the LCP recommendation when the LCP exceeds 2500 ms; whenever the LCP entry
  names a resource, and whatever the LCP value, a recommendation naming that resource;
  the alt text recommendation when an Image Alt Text result failed; the responsive
  recommendation naming the devices with issues; when there is a critical or serious
  accessibility issue, a recommendation giving their number; the count of failing
  results of medium severity when it exceeds 5; and last the three fixed suggestions.
\<close>

theorem generateRecommendations_layout:
  "generateRecommendations s =
     (if highPriorityIssues s \<noteq> []
      then rec_high_priority (length (highPriorityIssues s))
             # map issue_line (take 3 (highPriorityIssues s))
      else [])
     @ (if loadTime (performanceMetrics s) > 3000 then [rec_load_time] else [])
     @ (if largestContentfulPaint (performanceMetrics s) > 2500 then [rec_lcp] else [])
     @ (case lcp_entry_url s of Some u \<Rightarrow> [rec_lcp_resource u] | None \<Rightarrow> [])
     @ (if \<exists>r\<in>set (results s). test r = ''Image Alt Text'' \<and> status r = Fail
        then [rec_alt_text] else [])
     @ (if responsiveIssues s \<noteq> []
        then [rec_responsive (map device (responsiveIssues s))] else [])
     @ (if criticalA11yIssues s \<noteq> []
        then [rec_a11y (length (criticalA11yIssues s))] else [])
     @ (if length (mediumPriorityIssues s) > 5
        then [rec_medium_priority (length (mediumPriorityIssues s))] else [])
     @ [rec_analytics, rec_user_testing, rec_action_plan]"
proof -
  have alt: "(case find (\<lambda>r. test r = ''Image Alt Text'' \<and> status r = Fail) (results s) of
                Some m \<Rightarrow> push xs rec_alt_text | None \<Rightarrow> xs)
             = xs @ (if \<exists>r\<in>set (results s). test r = ''Image Alt Text'' \<and> status r = Fail
                     then [rec_alt_text] else [])" for xs
    using find_None_iff_ex [of "\<lambda>r. test r = ''Image Alt Text'' \<and> status r = Fail" "results s"]
    by (cases "find (\<lambda>r. test r = ''Image Alt Text'' \<and> status r = Fail) (results s)")
       (simp_all add: push_def)
  have url: "(case lcp_entry_url s of Some u \<Rightarrow> push xs (rec_lcp_resource u) | None \<Rightarrow> xs)
             = xs @ (case lcp_entry_url s of Some u \<Rightarrow> [rec_lcp_resource u] | None \<Rightarrow> [])"
    for xs
    by (cases "lcp_entry_url s") (simp_all add: push_def)
  show ?thesis
    unfolding generateRecommendations_def Let_def alt url foldl_push
    by (simp add: push_def)
qed

text \<open>A tester whose only finding is one critical accessibility issue: none of the
  conditions for the entries (1) to (6) of the claim holds, and yet the list is not
  just the fixed suggestions: it starts with the accessibility recommendation.\<close>

theorem a11y_recommendation_counterexample:
  "highPriorityIssues critical_a11y_only = [] \<and>
   \<not> loadTime (performanceMetrics critical_a11y_only) > 3000 \<and>
   \<not> largestContentfulPaint (performanceMetrics critical_a11y_only) > 2500 \<and>
   find (\<lambda>r. test r = ''Image Alt Text'' \<and> status r = Fail) (results critical_a11y_only)
     = None \<and>
   responsiveIssues critical_a11y_only = [] \<and>
   \<not> length (mediumPriorityIssues critical_a11y_only) > 5 \<and>
   generateRecommendations critical_a11y_only =
     [rec_a11y 1, rec_analytics, rec_user_testing, rec_action_plan] \<and>
   generateRecommendations critical_a11y_only
     \<noteq> [rec_analytics, rec_user_testing, rec_action_plan]"
  by (simp add: critical_a11y_only_def new_UXUITester_def generateRecommendations_def
        highPriorityIssues_def mediumPriorityIssues_def responsiveIssues_def
        criticalA11yIssues_def lcp_entry_url_def push_def Let_def)

subsection \<open>End-to-end scenario\<close>

lemma results_record_area [simp]:
  "results (record_area pg c t d sev r s sel) = results s"
  by (simp add: record_area_def)

lemma results_foldl_record_area [simp]:
  "results (foldl (record_area pg c t d sev r) s sels) = results s"
  by (induction sels arbitrary: s) simp_all





subsection \<open>Colour contrast\<close>

text \<open>Parsing the printed colour gives the channels back.\<close>

lemma digit_chars_nth_is_digit: "d < 10 \<Longrightarrow> is_digit (digit_chars ! d)"
  by (simp add: is_digit_def digit_chars_def) (simp add: less_Suc_eq numeral_eq_Suc, auto)

lemma digit_value_nth: "d < 10 \<Longrightarrow> digit_value (digit_chars ! d) = d"
  by (simp add: digit_value_def digit_chars_def) (simp add: less_Suc_eq numeral_eq_Suc, auto)

lemma dec_digits: "dec n \<noteq> [] \<and> list_all is_digit (dec n)"
proof (induction n rule: dec.induct)
  case (1 n)
  show ?case
  proof (cases "n < 10")
    case True
    then show ?thesis by (simp add: dec.simps [of n] digit_chars_nth_is_digit)
  next
    case False
    with 1 show ?thesis by (simp add: dec.simps [of n] digit_chars_nth_is_digit)
  qed
qed

lemma parseInt_snoc: "parseInt (ds @ [c]) = 10 * parseInt ds + digit_value c"
  by (simp add: parseInt_def)

lemma parseInt_dec: "parseInt (dec n) = n"
proof (induction n rule: dec.induct)
  case (1 n)
  show ?case
  proof (cases "n < 10")
    case True
    then show ?thesis by (simp add: dec.simps [of n] parseInt_def digit_value_nth)
  next
    case False
    with 1 show ?thesis by (simp add: dec.simps [of n] parseInt_snoc digit_value_nth)
  qed
qed

lemma digit_runs_digits:
  "list_all is_digit ds \<Longrightarrow> digit_runs cur (ds @ rest) = digit_runs (cur @ ds) rest"
  by (induction ds arbitrary: cur) simp_all

lemma digit_runs_dec:
  "\<not> is_digit c \<Longrightarrow> digit_runs [] (dec n @ c # rest) = dec n # digit_runs [] rest"
  using dec_digits [of n] by (simp add: digit_runs_digits)

lemma digit_runs_rgb_string: "digit_runs [] (rgb_string r g b) = [dec r, dec g, dec b]"
proof -
  have nd: "\<not> is_digit CHR '',''" "\<not> is_digit CHR '')''" "\<not> is_digit CHR '' ''"
    "\<not> is_digit CHR ''r''" "\<not> is_digit CHR ''g''" "\<not> is_digit CHR ''b''" "\<not> is_digit CHR ''(''"
    by (simp_all add: is_digit_def digit_chars_def)
  show ?thesis
    by (simp add: rgb_string_def nd digit_runs_dec)
qed

lemma parseRgb_rgb_string: "parseRgb (rgb_string r g b) = (Some r, Some g, Some b)"
  by (simp add: parseRgb_def digit_runs_rgb_string match_at_def parseInt_dec)

lemma linearize_wcag: "linearize v = wcag_linear (real v / 255)"
  by (simp add: linearize_def wcag_linear_def Let_def)

lemma getContrast_rgb_string:
  "getContrast (rgb_string r1 g1 b1) (rgb_string r2 g2 b2)
     = Some (wcag_ratio (r1, g1, b1) (r2, g2, b2))"
  by (simp add: getContrast_def parseRgb_rgb_string getLuminance_def linearize_wcag
        wcag_ratio_def wcag_luminance_def Let_def)

lemma wcag_linear_nonneg: "0 \<le> c \<Longrightarrow> 0 \<le> wcag_linear c"
  by (simp add: wcag_linear_def)

lemma wcag_luminance_nonneg: "0 \<le> wcag_luminance rgb"
  by (cases rgb) (simp add: wcag_luminance_def wcag_linear_nonneg)

lemma wcag_ratio_same: "wcag_ratio c c = 1"
  using wcag_luminance_nonneg [of c] by (simp add: wcag_ratio_def)

lemma wcag_luminance_black: "wcag_luminance (0, 0, 0) = 0"
  by (simp add: wcag_luminance_def wcag_linear_def)

lemma wcag_luminance_white: "wcag_luminance (255, 255, 255) = 1"
  by (simp add: wcag_luminance_def wcag_linear_def)

lemma wcag_ratio_black_white: "wcag_ratio (0, 0, 0) (255, 255, 255) = 21"
  by (simp add: wcag_ratio_def wcag_luminance_black wcag_luminance_white)


lemma rgb_string_opaque: "rgb_string r g b \<noteq> [] \<and> rgb_string r g b \<noteq> ''rgba(0, 0, 0, 0)''"
  by (simp add: rgb_string_def)

lemma contrast_issue_of_rgb:
  assumes "el_color el = rgb_string r1 g1 b1" "el_backgroundColor el = rgb_string r2 g2 b2"
    "trim (el_textContent el) \<noteq> []"
  shows "contrast_issue_of el i \<noteq> None \<longleftrightarrow> wcag_ratio (r1, g1, b1) (r2, g2, b2) < 4.5"
  using assms rgb_string_opaque [of r1 g1 b1] rgb_string_opaque [of r2 g2 b2]
  by (simp add: contrast_issue_of_def Let_def getContrast_rgb_string)

lemma contrast_issue_of_empty:
  "trim (el_textContent el) = [] \<Longrightarrow> contrast_issue_of el i = None"
  by (simp add: contrast_issue_of_def Let_def)

text \<open>
  Claim C4. For every pair of colours given by their channels and printed as the browser
  prints a computed colour, the ratio the probe computes is the ratio of the
  specification's formula, over the reals. An element with text in these colours is
  flagged exactly when that ratio is below 4.5. Black on white has ratio 21 and is not
  flagged; a colour on itself has ratio 1, and an element with text is flagged.
\<close>

theorem contrast_matches_wcag:
  "getContrast (rgb_string r1 g1 b1) (rgb_string r2 g2 b2)
     = Some (wcag_ratio (r1, g1, b1) (r2, g2, b2)) \<and>
   (el_color el = rgb_string r1 g1 b1 \<and> el_backgroundColor el = rgb_string r2 g2 b2 \<and>
    trim (el_textContent el) \<noteq> [] \<longrightarrow>
      (contrast_issue_of el i \<noteq> None \<longleftrightarrow> wcag_ratio (r1, g1, b1) (r2, g2, b2) < 4.5)) \<and>
   getContrast (rgb_string 0 0 0) (rgb_string 255 255 255) = Some 21 \<and>
   (el_color el = rgb_string 0 0 0 \<and> el_backgroundColor el = rgb_string 255 255 255 \<longrightarrow>
      contrast_issue_of el i = None) \<and>
   getContrast (rgb_string v v v) (rgb_string v v v) = Some 1 \<and>
   (el_color el = rgb_string v v v \<and> el_backgroundColor el = rgb_string v v v \<and>
    trim (el_textContent el) \<noteq> [] \<longrightarrow>
      contrast_issue_of el i \<noteq> None)"
proof (intro conjI impI)
  show "getContrast (rgb_string r1 g1 b1) (rgb_string r2 g2 b2)
          = Some (wcag_ratio (r1, g1, b1) (r2, g2, b2))"
    by (rule getContrast_rgb_string)
  show "getContrast (rgb_string 0 0 0) (rgb_string 255 255 255) = Some 21"
    by (simp add: getContrast_rgb_string wcag_ratio_black_white)
  show "getContrast (rgb_string v v v) (rgb_string v v v) = Some 1"
    by (simp add: getContrast_rgb_string wcag_ratio_same)
next
  assume "el_color el = rgb_string r1 g1 b1 \<and> el_backgroundColor el = rgb_string r2 g2 b2 \<and>
    trim (el_textContent el) \<noteq> []"
  then show "contrast_issue_of el i \<noteq> None \<longleftrightarrow> wcag_ratio (r1, g1, b1) (r2, g2, b2) < 4.5"
    using contrast_issue_of_rgb by blast
next
  assume a: "el_color el = rgb_string 0 0 0 \<and> el_backgroundColor el = rgb_string 255 255 255"
  show "contrast_issue_of el i = None"
  proof (cases "trim (el_textContent el) = []")
    case True
    then show ?thesis by (rule contrast_issue_of_empty)
  next
    case False
    with a contrast_issue_of_rgb [of el 0 0 0 255 255 255 i] show ?thesis
      by (simp add: wcag_ratio_black_white)
  qed
next
  assume "el_color el = rgb_string v v v \<and> el_backgroundColor el = rgb_string v v v \<and>
    trim (el_textContent el) \<noteq> []"
  with contrast_issue_of_rgb [of el v v v v v v i] show "contrast_issue_of el i \<noteq> None"
    by (simp add: wcag_ratio_same)
qed

lemma rgb_string_black: "rgb_string 0 0 0 = ''rgb(0, 0, 0)''"
  by (simp add: rgb_string_def dec.simps digit_chars_def)

lemma rgb_string_white: "rgb_string 255 255 255 = ''rgb(255, 255, 255)''"
  by (simp add: rgb_string_def dec.simps digit_chars_def)

lemma rgb_string_gray: "rgb_string 128 128 128 = ''rgb(128, 128, 128)''"
  by (simp add: rgb_string_def dec.simps digit_chars_def)

text \<open>A paragraph in black on white and a heading in mid-gray on the same mid-gray.\<close>

theorem contrast_matches_wcag_witness:
  "getContrast ''rgb(0, 0, 0)'' ''rgb(255, 255, 255)'' = Some 21 \<and>
   trim (el_textContent black_on_white) \<noteq> [] \<and>
   contrast_issue_of black_on_white 0 = None \<and>
   getContrast ''rgb(128, 128, 128)'' ''rgb(128, 128, 128)'' = Some 1 \<and>
   trim (el_textContent gray_on_gray) \<noteq> [] \<and>
   contrast_issue_of gray_on_gray 1 \<noteq> None"
proof -
  have t: "trim (el_textContent black_on_white) \<noteq> []" "trim (el_textContent gray_on_gray) \<noteq> []"
    by (simp_all add: black_on_white_def gray_on_gray_def trim_def is_space_def)
  have c: "el_color black_on_white = rgb_string 0 0 0"
    "el_backgroundColor black_on_white = rgb_string 255 255 255"
    "el_color gray_on_gray = rgb_string 128 128 128"
    "el_backgroundColor gray_on_gray = rgb_string 128 128 128"
    by (simp_all add: black_on_white_def gray_on_gray_def rgb_string_black rgb_string_white
          rgb_string_gray)
  from contrast_matches_wcag [of 0 0 0 255 255 255 black_on_white 0 128]
       contrast_matches_wcag [of 0 0 0 255 255 255 gray_on_gray 1 128] t c
  show ?thesis
    by (simp add: rgb_string_black rgb_string_white rgb_string_gray)
qed

subsection \<open>Responsive probe\<close>

lemma browser_addResult [simp]:
  "browser (addResult c t st sc d sev els recs s) = browser s"
  by (simp add: addResult_def)

text \<open>Whatever throws for a device once its context is open, the turn of the loop ends
  with that context still open.\<close>

lemma device_try_context_kept:
  assumes b: "browser s = Some b" "running b" and c: "newContext env = Inr ()"
    and t: "device_try env d s = (Some e, s')"
  shows "browser s' = Some (b\<lparr>contexts := contexts b @ [next_context b],
                               next_context := Suc (next_context b)\<rparr>)"
proof -
  from b c have n: "browser_newContext (newContext env) s =
      (Inr (next_context b),
       s\<lparr>browser := Some (b\<lparr>contexts := contexts b @ [next_context b],
                             next_context := Suc (next_context b)\<rparr>)\<rparr>)"
    by (simp add: browser_newContext_def)
  from t show ?thesis
    unfolding device_try_def n Let_def
    by (auto simp: or_throw_def device_findings_def context_close_def
          split: sum.splits if_splits)
qed

lemma failing_device_leaks_context:
  assumes "browser s = Some b" "running b" "newContext env = Inr ()"
    and "fst (device_try env d s) \<noteq> None"
  shows "\<exists>b'. browser (testResponsive_device env d s) = Some b' \<and>
               next_context b \<in> set (contexts b')"
proof -
  from assms(4) obtain e s' where t: "device_try env d s = (Some e, s')"
    by (cases "device_try env d s") auto
  from device_try_context_kept [OF assms(1-3) t] t show ?thesis
    by (simp add: testResponsive_device_def)
qed

text \<open>
  Claim C6, at a failing input. The page of the third device, the tablet, cannot be
  loaded. The other four devices are tested and appear in the responsive results, and
  the tablet has exactly one result, a warning of low severity. But the context opened
  for the tablet, the fourth of the browser, is not closed: when the probe returns, the
  browser holds it open beside the context of the main page.
\<close>

theorem failing_device_context_left_open:
  "goto (tablet_unreachable ''Tablet iPad'') = Inl (Error ''net::ERR_CONNECTION_RESET'') \<and>
   map device (responsiveResults (testResponsive tablet_unreachable launched))
     = [''Desktop 1920x1080'', ''Desktop 1366x768'', ''Mobile iPhone 12'',
        ''Mobile Samsung S21''] \<and>
   filter (\<lambda>r. test r = ''Tablet iPad'') (results (testResponsive tablet_unreachable launched))
     = [\<lparr>category = ''Responsive Design'', test = ''Tablet iPad'', status = Warning,
         score = 5, details = ''Could not fully test responsive design for this device'',
         severity = Low, elements = None, recommendations = None\<rparr>] \<and>
   browser launched = Some \<lparr>running = True, contexts = [0], next_context = 1\<rparr> \<and>
   browser (testResponsive tablet_unreachable launched)
     = Some \<lparr>running = True, contexts = [0, 3], next_context = 6\<rparr>"
  by code_simp


subsection \<open>Accessibility probe\<close>

lemma scriptTagRequests_addResult [simp]:
  "scriptTagRequests (addResult c t st sc d sev els recs s) = scriptTagRequests s"
  by (simp add: addResult_def)

lemma scriptTagRequests_process_violation [simp]:
  "scriptTagRequests (process_violation s v) = scriptTagRequests s"
  by (simp add: process_violation_def Let_def split: option.splits)

lemma scriptTagRequests_violations [simp]:
  "scriptTagRequests (foldl process_violation s vs) = scriptTagRequests s"
  by (induction vs arbitrary: s) simp_all

lemma scriptTagRequests_checks [simp]:
  "scriptTagRequests (keyboard_check env s) = scriptTagRequests s"
  "scriptTagRequests (skip_link_check env s) = scriptTagRequests s"
  "scriptTagRequests (language_check env s) = scriptTagRequests s"
  "scriptTagRequests (landmark_check env s) = scriptTagRequests s"
  "scriptTagRequests (overall_a11y s) = scriptTagRequests s"
  "scriptTagRequests (axe_unavailable s) = scriptTagRequests s"
  by (simp_all add: keyboard_check_def skip_link_check_def language_check_def
        landmark_check_def overall_a11y_def axe_unavailable_def Let_def split: sum.splits)

lemma scriptTagRequests_testAccessibility:
  "scriptTagRequests (testAccessibility env s) = scriptTagRequests (snd (load_axe env s))"
  by (simp add: testAccessibility_def Let_def split: prod.splits sum.splits)

lemma results_load_from_cdn [simp]: "results (snd (load_from_cdn env s)) = results s"
  by (simp add: load_from_cdn_def addScriptTag_def Let_def split: sum.splits)

lemma results_load_from_package [simp]: "results (snd (load_from_package env s)) = results s"
  by (simp add: load_from_package_def addScriptTag_def Let_def split: sum.splits)

lemma results_load_axe [simp]: "results (snd (load_axe env s)) = results s"
proof (cases "load_from_cdn env s")
  case (Pair loaded s1)
  with results_load_from_cdn [of env s] have "results s1 = results s" by simp
  with Pair show ?thesis by (simp add: load_axe_def)
qed

lemma results_checks:
  "\<exists>r. results (keyboard_check env s) = results s @ [r]"
  "\<exists>r. results (skip_link_check env s) = results s @ [r]"
  "\<exists>r. results (language_check env s) = results s @ [r]"
  "\<exists>r. results (landmark_check env s) = results s @ [r]"
  "\<exists>r. results (overall_a11y s) = results s @ [r]"
  by (simp_all add: keyboard_check_def skip_link_check_def language_check_def
        landmark_check_def overall_a11y_def Let_def split: sum.splits)

lemma results_after_audit:
  "\<exists>rs. results (overall_a11y (landmark_check env (language_check env
            (skip_link_check env (keyboard_check env s))))) = results s @ rs"
  by (metis results_checks append.assoc)

text \<open>
  Claim C7, as the code has it. The probe requests the script of the audit engine from
  the remote address first. It requests the script of the local package second, and only
  when the engine is not defined after the first request and the package resolves. The
  engine counts as loaded when one of the two requests succeeds and defines it. When
  neither does, the first result the probe appends is a warning of low severity with
  score 5 that states the limitation; the probe itself never throws.
\<close>

theorem axe_load_order:
  "scriptTagRequests (testAccessibility env s) =
     scriptTagRequests s @ FromUrl axe_cdn_url #
       (if cdn_addScriptTag env = Inr () \<and> cdn_axe_defined env = Inr True then []
        else (case local_resolve env of Inl e \<Rightarrow> [] | Inr axePath \<Rightarrow> [FromPath axePath])) \<and>
   (fst (load_axe env s) \<longleftrightarrow>
      (cdn_addScriptTag env = Inr () \<and> cdn_axe_defined env = Inr True) \<or>
      ((\<exists>axePath. local_resolve env = Inr axePath) \<and> local_addScriptTag env = Inr () \<and>
       local_axe_defined env = Inr True)) \<and>
   (\<not> fst (load_axe env s) \<longrightarrow>
      results (testAccessibility env s) ! length (results s) =
        \<lparr>category = ''Accessibility'', test = ''axe-core'', status = Warning, score = 5,
         details = ''axe-core could not be loaded; accessibility automated checks were limited'',
         severity = Low, elements = None, recommendations = None\<rparr>)"
proof (intro conjI impI)
  show "scriptTagRequests (testAccessibility env s) =
     scriptTagRequests s @ FromUrl axe_cdn_url #
       (if cdn_addScriptTag env = Inr () \<and> cdn_axe_defined env = Inr True then []
        else (case local_resolve env of Inl e \<Rightarrow> [] | Inr axePath \<Rightarrow> [FromPath axePath]))"
    unfolding scriptTagRequests_testAccessibility
    by (auto simp: load_axe_def load_from_cdn_def load_from_package_def addScriptTag_def Let_def
          split: prod.splits sum.splits)
  show "fst (load_axe env s) \<longleftrightarrow>
      (cdn_addScriptTag env = Inr () \<and> cdn_axe_defined env = Inr True) \<or>
      ((\<exists>axePath. local_resolve env = Inr axePath) \<and> local_addScriptTag env = Inr () \<and>
       local_axe_defined env = Inr True)"
    by (auto simp: load_axe_def load_from_cdn_def load_from_package_def addScriptTag_def Let_def
          split: prod.splits sum.splits)
next
  assume n: "\<not> fst (load_axe env s)"
  obtain s1 where l: "load_axe env s = (False, s1)"
    using n by (cases "load_axe env s") auto
  from results_load_axe [of env s] l have r1: "results s1 = results s" by simp
  obtain rs where "results (overall_a11y (landmark_check env (language_check env
            (skip_link_check env (keyboard_check env (axe_unavailable s1))))))
         = results (axe_unavailable s1) @ rs"
    using results_after_audit by blast
  then show "results (testAccessibility env s) ! length (results s) =
        \<lparr>category = ''Accessibility'', test = ''axe-core'', status = Warning, score = 5,
         details = ''axe-core could not be loaded; accessibility automated checks were limited'',
         severity = Low, elements = None, recommendations = None\<rparr>"
    by (simp add: testAccessibility_def l axe_unavailable_def r1 nth_append)
qed

text \<open>On a page where the remote script and the local package are both available, the
  only script requested is the remote one: the local asset is not tried first.\<close>

theorem remote_script_first_counterexample:
  "local_resolve axe_everywhere = Inr ''node_modules/axe-core/axe.min.js'' \<and>
   local_addScriptTag axe_everywhere = Inr () \<and>
   local_axe_defined axe_everywhere = Inr True \<and>
   scriptTagRequests (testAccessibility axe_everywhere new_UXUITester)
     = [FromUrl axe_cdn_url]"
  by code_simp

text \<open>On a page where neither source loads, both are requested, the remote one first,
  and the first result is the warning.\<close>

theorem axe_load_order_witness:
  "\<not> fst (load_axe axe_nowhere new_UXUITester) \<and>
   scriptTagRequests (testAccessibility axe_nowhere new_UXUITester)
     = [FromUrl axe_cdn_url, FromPath ''node_modules/axe-core/axe.min.js''] \<and>
   (let r = results (testAccessibility axe_nowhere new_UXUITester) ! 0
    in test r = ''axe-core'' \<and> status r = Warning \<and> score r = 5 \<and> severity r = Low)"
proof -
  have n: "\<not> fst (load_axe axe_nowhere new_UXUITester)"
    by code_simp
  have e: "scriptTagRequests new_UXUITester = []" "results new_UXUITester = []"
    "cdn_addScriptTag axe_nowhere \<noteq> Inr ()"
    "local_resolve axe_nowhere = Inr ''node_modules/axe-core/axe.min.js''"
    by (simp_all add: new_UXUITester_def axe_nowhere_def axe_everywhere_def)
  from axe_load_order [of axe_nowhere new_UXUITester] n e show ?thesis
    by simp
qed

subsection \<open>Session orchestrator\<close>

lemma run_steps_append_throw:
  "run_steps before s = (None, s1) \<Longrightarrow> f s1 = (Some e, s2) \<Longrightarrow>
   run_steps (before @ f # after) s = (Some e, s2)"
  by (induction before arbitrary: s) (auto split: prod.splits option.splits)

text \<open>
  Claim C2, as the code has it. In a run in which \<open>initialize\<close> and the navigation
  succeed, let any probe of the fixed sequence throw, the probes before it having
  returned, and let the tester still have its browser. Then
  \<open>runAllTests\<close> throws that exception to its caller, after \<open>cleanup\<close> has closed the
  browser and its contexts; it returns no report, and it appends no result to those the
  tester held when the exception was thrown.
\<close>

theorem probe_exception_rethrown:
  assumes seq: "probes env = before @ probe # after"
    and ok: "run_steps (initialize env # goto_url env # before) s = (None, s1)"
    and thrown: "probe s1 = (Some e, s2)"
    and br: "browser s2 = Some b"
  shows "runAllTests env s
           = (Inl e, s2\<lparr>browser := Some (b\<lparr>running := False, contexts := []\<rparr>)\<rparr>) \<and>
         results (snd (runAllTests env s)) = results s2"
proof -
  from ok thrown have "run_steps ((initialize env # goto_url env # before) @ probe # after) s
       = (Some e, s2)"
    by (rule run_steps_append_throw)
  with seq have "run_steps (initialize env # goto_url env # probes env) s = (Some e, s2)"
    by simp
  with br show ?thesis
    by (simp add: runAllTests_def cleanup_def)
qed

text \<open>A page without a navigation timing entry: the performance probe throws, and so
  does the run, with no result at all.\<close>

theorem first_probe_throws_counterexample:
  "testPerformance (perf no_timing_run) launched
     = Inl (Error ''TypeError: Cannot read properties of undefined'') \<and>
   fst (runAllTests no_timing_run new_UXUITester)
     = Inl (Error ''TypeError: Cannot read properties of undefined'') \<and>
   results (snd (runAllTests no_timing_run new_UXUITester)) = []"
  by code_simp

text \<open>The same run satisfies the hypotheses with the performance probe as the probe
  that throws.\<close>

theorem probe_exception_rethrown_witness:
  "run_steps [initialize no_timing_run, goto_url no_timing_run] new_UXUITester
     = (None, launched) \<and>
   hd (probes no_timing_run) launched
     = (Some (Error ''TypeError: Cannot read properties of undefined''), launched) \<and>
   runAllTests no_timing_run new_UXUITester
     = (Inl (Error ''TypeError: Cannot read properties of undefined''),
        launched\<lparr>browser := Some \<lparr>running = False, contexts = [], next_context = 1\<rparr>\<rparr>)"
proof -
  have seq: "probes no_timing_run = [] @ hd (probes no_timing_run) # tl (probes no_timing_run)"
    by (simp add: probes_def)
  have ok: "run_steps (initialize no_timing_run # goto_url no_timing_run # []) new_UXUITester
              = (None, launched)"
    by code_simp
  have thrown: "hd (probes no_timing_run) launched
     = (Some (Error ''TypeError: Cannot read properties of undefined''), launched)"
    by (simp add: probes_def throwing_def testPerformance_def eval_metrics_def
          no_timing_run_def quiet_run_def perf_page_3000_def Let_def)
  have br: "browser launched = Some \<lparr>running = True, contexts = [0], next_context = 1\<rparr>"
    by (simp add: launched_def)
  from probe_exception_rethrown [OF seq ok thrown br] ok thrown show ?thesis
    by simp
qed

end
